theory Spec2Isabelle
  imports Main "HOL-Library.Word"
begin

section \<open>Data model\<close>

text \<open>
  Go strings and byte slices are sequences of bytes; both are modelled as \<open>string\<close>.
  A nil slice and an empty slice are both the empty list where the code modelled
  here cannot tell them apart (it appends to slices, ranges over them, takes their
  length and prints them). The password that the classifier hands to
  \<open>encutils.IsPrivateKey\<close> is the exception, since that function answers a nil
  password (none was given) and an empty one differently: a password is a
  \<open>bytes option\<close>, and \<open>None\<close> is the nil slice.
  \<open>int32\<close> and \<open>uint32\<close> are 32-bit words: arithmetic wraps, \<open>sint\<close> reads a
  word as signed and \<open>unat\<close> as unsigned. The conversion \<open>uint32(x)\<close> of an
  \<open>int32\<close> keeps the bits, so it is the identity on words.
\<close>

type_synonym bytes = string
type_synonym int32 = "32 word"
type_synonym uint32 = "32 word"

text \<open>
  Errors are values. \<open>New\<close> is \<open>errors.New\<close>, \<open>errors.Errorf\<close> and \<open>fmt.Errorf\<close>
  with the formatted message; \<open>Wrap\<close> is \<open>errors.Wrap\<close> and \<open>errors.Wrapf\<close>;
  \<open>Lib\<close> is an error value handed back by a library call, opaque to this code;
  \<open>EOF\<close> is the sentinel \<open>io.EOF\<close>; \<open>NilDereference\<close> is the run-time panic
  of dereferencing a nil pointer.
\<close>

datatype error =
    New string
  | Wrap error string
  | Lib string
  | EOF
  | NilDereference

text \<open>
  \<open>ocispec.Platform\<close> and \<open>ocispec.Descriptor\<close>, with the fields this code reads
  or carries along (the operating-system version and features of a platform and
  the URLs and annotations of a descriptor are never touched). The descriptor's
  \<open>Platform\<close> field is a pointer: \<open>None\<close> is nil, \<open>Some a\<close> the address \<open>a\<close>.
  Pointers are compared by address, as Go's \<open>==\<close> and \<open>!=\<close> on pointers do.
\<close>

record Platform =
  Architecture :: string
  OS :: string
  Variant :: string

type_synonym ptr = nat

record Descriptor =
  MediaType :: string
  Digest :: string
  Size :: int
  Platform :: "ptr option"

record LayerInfo =
  Index :: uint32
  Descriptor :: Descriptor

section \<open>Layer selector\<close>

text \<open>\<open>isUserSelectedLayer\<close>: the \<open>for\<close> loop over \<open>layers\<close> is the recursion of
  \<open>layersLoop\<close>.\<close>

fun layersLoop :: "int32 \<Rightarrow> int32 \<Rightarrow> int32 list \<Rightarrow> bool" where
  "layersLoop negNumber layerIndex [] = False"
| "layersLoop negNumber layerIndex (l # ls) =
     (if l = negNumber \<or> l = layerIndex then True
      else layersLoop negNumber layerIndex ls)"

definition isUserSelectedLayer :: "int32 \<Rightarrow> int32 \<Rightarrow> int32 list \<Rightarrow> bool" where
  "isUserSelectedLayer layerIndex layersTotal layers =
     (if length layers = 0 then True
      else (let negNumber = layerIndex - layersTotal
            in layersLoop negNumber layerIndex layers))"

text \<open>
  \<open>isUserSelectedPlatform\<close>. The platform store \<open>deref\<close> gives the value a platform
  pointer points to, and \<open>Match m p\<close> is \<open>platforms.NewMatcher(m).Match(p)\<close>; both
  belong to the environment. Dereferencing nil panics, which happens only after the
  test for an empty platform list.
\<close>

record layer_env =
  deref :: "ptr \<Rightarrow> Platform"
  Match :: "Platform \<Rightarrow> Platform \<Rightarrow> bool"

fun platformLoop :: "(Platform \<Rightarrow> bool) \<Rightarrow> Platform list \<Rightarrow> bool" where
  "platformLoop matcher [] = False"
| "platformLoop matcher (p # ps) = (if matcher p then True else platformLoop matcher ps)"

definition isUserSelectedPlatform ::
  "layer_env \<Rightarrow> ptr option \<Rightarrow> Platform list \<Rightarrow> error + bool" where
  "isUserSelectedPlatform E platform platformList =
     (if length platformList = 0 then Inr True
      else (case platform of
              None \<Rightarrow> Inl NilDereference
            | Some a \<Rightarrow> Inr (platformLoop (Match E (deref E a)) platformList)))"

fun countLoop :: "ptr option \<Rightarrow> int32 \<Rightarrow> Descriptor list \<Rightarrow> int32" where
  "countLoop platform c [] = c"
| "countLoop platform c (desc # descs) =
     countLoop platform (if Platform desc = platform then c + 1 else c) descs"

definition countLayers :: "Descriptor list \<Rightarrow> ptr option \<Rightarrow> int32" where
  "countLayers descs platform = countLoop platform 0 descs"

text \<open>
  \<open>filterLayerDescriptors\<close>. The local variables of the function are the fields of
  \<open>selector\<close>; they start at Go's zero values (nil, 0, the empty slice). \<open>advance\<close>
  is the first statement of the loop body, which moves the platform cursor and the
  running index; \<open>filterLoop\<close> is the loop. The right operand of \<open>&&\<close> is evaluated
  only when the left one is true.
\<close>

record selector =
  layerInfos :: "LayerInfo list"
  descs :: "Descriptor list"
  curplat :: "ptr option"
  layerIndex :: int32
  layersTotal :: int32

definition selector0 :: selector where
  "selector0 = \<lparr>layerInfos = [], descs = [], curplat = None, layerIndex = 0, layersTotal = 0\<rparr>"

definition advance :: "Descriptor list \<Rightarrow> selector \<Rightarrow> Descriptor \<Rightarrow> selector" where
  "advance alldescs s desc =
     (if curplat s \<noteq> Platform desc
      then s\<lparr>curplat := Platform desc, layerIndex := 0,
              layersTotal := countLayers alldescs (Platform desc)\<rparr>
      else s\<lparr>layerIndex := layerIndex s + 1\<rparr>)"

fun filterLoop ::
  "layer_env \<Rightarrow> Descriptor list \<Rightarrow> int32 list \<Rightarrow> Platform list \<Rightarrow> selector \<Rightarrow>
   Descriptor list \<Rightarrow> error + selector" where
  "filterLoop E alldescs layers pl s [] = Inr s"
| "filterLoop E alldescs layers pl s (desc # rest) =
     (let s1 = advance alldescs s desc in
      if isUserSelectedLayer (layerIndex s1) (layersTotal s1) layers
      then (case isUserSelectedPlatform E (curplat s1) pl of
              Inl e \<Rightarrow> Inl e
            | Inr True \<Rightarrow>
                filterLoop E alldescs layers pl
                  (s1\<lparr>descs := descs s1 @ [desc],
                      layerInfos := layerInfos s1 @
                        [\<lparr>Index = layerIndex s1, Descriptor = desc\<rparr>]\<rparr>) rest
            | Inr False \<Rightarrow> filterLoop E alldescs layers pl s1 rest)
      else filterLoop E alldescs layers pl s1 rest)"

definition filterLayerDescriptors ::
  "layer_env \<Rightarrow> Descriptor list \<Rightarrow> int32 list \<Rightarrow> Platform list \<Rightarrow>
   error + (LayerInfo list \<times> Descriptor list)" where
  "filterLayerDescriptors E alldescs layers pl =
     (case filterLoop E alldescs layers pl selector0 alldescs of
        Inl e \<Rightarrow> Inl e
      | Inr s \<Rightarrow> Inr (layerInfos s, descs s))"

text \<open>
  The position of descriptor \<open>k\<close> of a list inside its run of consecutive
  descriptors that carry the same platform pointer: 0 at the first descriptor and
  wherever the pointer differs from the one before, one more than before otherwise.
\<close>

fun runIndex :: "Descriptor list \<Rightarrow> nat \<Rightarrow> nat" where
  "runIndex ds 0 = 0"
| "runIndex ds (Suc k) =
     (if Platform (ds ! Suc k) = Platform (ds ! k) then Suc (runIndex ds k) else 0)"

section \<open>Recipient and private-key classifier\<close>

text \<open>
  The library functions of Go that the classifier calls on strings, for a one-byte
  separator: \<open>strings.Index\<close> (the position of the first occurrence, or \<open>-1\<close>),
  \<open>strings.Split\<close> (the pieces between all occurrences; a string without the
  separator is one piece) and \<open>strings.HasPrefix\<close>.
\<close>

fun stringsIndex :: "string \<Rightarrow> char \<Rightarrow> int" where
  "stringsIndex [] c = - 1"
| "stringsIndex (x # xs) c =
     (if x = c then 0
      else (let i = stringsIndex xs c in if i < 0 then - 1 else i + 1))"

fun stringsSplit :: "string \<Rightarrow> char \<Rightarrow> string list" where
  "stringsSplit [] c = [[]]"
| "stringsSplit (x # xs) c =
     (if x = c then [] # stringsSplit xs c
      else (case stringsSplit xs c of
              [] \<Rightarrow> [[x]]
            | p # ps \<Rightarrow> (x # p) # ps))"

definition stringsHasPrefix :: "string \<Rightarrow> string \<Rightarrow> bool" where
  "stringsHasPrefix s pre = (take (length pre) s = pre)"

text \<open>
  What the classifier asks of its surroundings: the file system (\<open>ioutil.ReadFile\<close>),
  the content tests of \<open>encutils\<close>, \<open>strconv.Atoi\<close>, and an open file descriptor
  (\<open>os.NewFile\<close>, which yields nil for an invalid descriptor, and \<open>Read\<close>, which
  yields the bytes read and an error or nil). \<open>IsPrivateKey\<close> is given the
  content of the file and the password, \<open>None\<close> when the password is the nil
  slice, and returns a flag and an error or nil (\<open>None\<close>); \<open>IsPasswordError\<close>
  is asked about that error, nil included.
\<close>

record key_env =
  ReadFile :: "string \<Rightarrow> error + bytes"
  IsPublicKey :: "bytes \<Rightarrow> bool"
  IsCertificate :: "bytes \<Rightarrow> bool"
  IsPrivateKey :: "bytes \<Rightarrow> bytes option \<Rightarrow> bool \<times> error option"
  IsPasswordError :: "error option \<Rightarrow> bool"
  IsGPGPrivateKeyRing :: "bytes \<Rightarrow> bool"
  Atoi :: "string \<Rightarrow> error + int"
  NewFile :: "int \<Rightarrow> nat option"
  Read :: "nat \<Rightarrow> nat \<Rightarrow> bytes \<times> error option"

text \<open>
  \<open>processRecipientKeys\<close>. \<open>recipientProtocol\<close> and \<open>recipientValue\<close> are the
  slices \<open>recipient[:idx]\<close> and \<open>recipient[idx+1:]\<close>; the three buckets are the
  accumulator of \<open>recipientsLoop\<close>, in the order of the results.
\<close>

definition recipientProtocol :: "string \<Rightarrow> string" where
  "recipientProtocol recipient = take (nat (stringsIndex recipient CHR '':'')) recipient"

definition recipientValue :: "string \<Rightarrow> string" where
  "recipientValue recipient = drop (nat (stringsIndex recipient CHR '':'' + 1)) recipient"

fun recipientsLoop ::
  "key_env \<Rightarrow> bytes list \<times> bytes list \<times> bytes list \<Rightarrow> string list \<Rightarrow>
   error + (bytes list \<times> bytes list \<times> bytes list)" where
  "recipientsLoop E acc [] = Inr acc"
| "recipientsLoop E (gpgRecipients, pubkeys, x509s) (recipient # rest) =
     (if stringsIndex recipient CHR '':'' < 0 then Inl (New ''Invalid recipient format'')
      else if recipientProtocol recipient = ''pgp'' then
        recipientsLoop E (gpgRecipients @ [recipientValue recipient], pubkeys, x509s) rest
      else if recipientProtocol recipient = ''jwe'' then
        (case ReadFile E (recipientValue recipient) of
           Inl err \<Rightarrow> Inl (Wrap err ''Unable to read file'')
         | Inr tmp \<Rightarrow>
             if \<not> IsPublicKey E tmp then Inl (New ''File provided is not a public key'')
             else recipientsLoop E (gpgRecipients, pubkeys @ [tmp], x509s) rest)
      else if recipientProtocol recipient = ''pkcs7'' then
        (case ReadFile E (recipientValue recipient) of
           Inl err \<Rightarrow> Inl (Wrap err ''Unable to read file'')
         | Inr tmp \<Rightarrow>
             if \<not> IsCertificate E tmp then Inl (New ''File provided is not an x509 cert'')
             else recipientsLoop E (gpgRecipients, pubkeys, x509s @ [tmp]) rest)
      else Inl (New ''Provided protocol not recognized''))"

definition processRecipientKeys ::
  "key_env \<Rightarrow> string list \<Rightarrow> error + (bytes list \<times> bytes list \<times> bytes list)" where
  "processRecipientKeys E recipients = recipientsLoop E ([], [], []) recipients"

text \<open>
  \<open>processPwdString\<close>. The buffer of the \<open>fd=\<close> form has 64 bytes, so at most 64
  bytes are kept of what \<open>Read\<close> delivers.
\<close>

definition processPwdString :: "key_env \<Rightarrow> string \<Rightarrow> error + bytes" where
  "processPwdString E pwdString =
     (if stringsHasPrefix pwdString ''file='' then ReadFile E (drop 5 pwdString)
      else if stringsHasPrefix pwdString ''pass='' then Inr (drop 5 pwdString)
      else if stringsHasPrefix pwdString ''fd='' then
        (let fdStr = drop 3 pwdString in
         case Atoi E fdStr of
           Inl err \<Rightarrow> Inl (Wrap err (''could not parse file descriptor '' @ fdStr))
         | Inr fd \<Rightarrow>
             (case NewFile E fd of
                None \<Rightarrow> Inl (New (fdStr @ '' is not a valid file descriptor''))
              | Some f \<Rightarrow>
                  (case Read E f 64 of
                     (pwd, Some err) \<Rightarrow> Inl (Wrap err ''could not read from file descriptor'')
                   | (pwd, None) \<Rightarrow> Inr (take 64 pwd))))
      else Inr pwdString)"

text \<open>
  \<open>processPrivateKeyFiles\<close>. \<open>keyfileAndPassword\<close> is the first part of the loop
  body: the split of the specifier and the password. \<open>password\<close> is declared
  inside the loop, so it starts as the nil slice (\<open>None\<close>) for every specifier;
  it is assigned what \<open>processPwdString\<close> returns, which is never nil when
  there is no error, only when the split has exactly two parts. The four buckets
  are the accumulator of \<open>privateKeysLoop\<close>, in the order of the results; the
  passwords are stored as they are, nil or not. \<open>string(password)\<close> in the
  last error message is empty for the nil slice. A return on a password error
  hands back the error that \<open>IsPrivateKey\<close> gave; were \<open>IsPasswordError\<close> to
  hold of nil, that return would be four nil slices and a nil error.
\<close>

definition keyfileAndPassword ::
  "key_env \<Rightarrow> string \<Rightarrow> error + (string \<times> bytes option)" where
  "keyfileAndPassword E keyfileAndPwd =
     (let parts = stringsSplit keyfileAndPwd CHR '':'' in
      if length parts = 2 then
        (case processPwdString E (parts ! 1) of
           Inl err \<Rightarrow> Inl err
         | Inr password \<Rightarrow> Inr (parts ! 0, Some password))
      else Inr (parts ! 0, None))"

type_synonym key_buckets =
  "bytes list \<times> bytes option list \<times> bytes list \<times> bytes option list"

fun privateKeysLoop :: "key_env \<Rightarrow> key_buckets \<Rightarrow> string list \<Rightarrow> error + key_buckets" where
  "privateKeysLoop E acc [] = Inr acc"
| "privateKeysLoop E (gpgSecretKeyRingFiles, gpgSecretKeyPasswords, privkeys, privkeysPasswords)
     (keyfileAndPwd # rest) =
     (case keyfileAndPassword E keyfileAndPwd of
        Inl err \<Rightarrow> Inl err
      | Inr (keyfile, password) \<Rightarrow>
          (case ReadFile E keyfile of
             Inl err \<Rightarrow> Inl err
           | Inr tmp \<Rightarrow>
               (case IsPrivateKey E tmp password of
                  (isPrivKey, err) \<Rightarrow>
                    if IsPasswordError E err then
                      (case err of None \<Rightarrow> Inr ([], [], [], []) | Some e \<Rightarrow> Inl e)
                    else if isPrivKey then
                      privateKeysLoop E
                        (gpgSecretKeyRingFiles, gpgSecretKeyPasswords,
                         privkeys @ [tmp], privkeysPasswords @ [password]) rest
                    else if IsGPGPrivateKeyRing E tmp then
                      privateKeysLoop E
                        (gpgSecretKeyRingFiles @ [tmp], gpgSecretKeyPasswords @ [password],
                         privkeys, privkeysPasswords) rest
                    else Inl (New (''unidentified private key in file '' @ keyfile @
                                   '' (password='' @
                                   (case password of None \<Rightarrow> [] | Some pwd \<Rightarrow> pwd) @
                                   '')'')))))"

definition processPrivateKeyFiles :: "key_env \<Rightarrow> string list \<Rightarrow> error + key_buckets" where
  "processPrivateKeyFiles E keyFilesAndPwds = privateKeysLoop E ([], [], [], []) keyFilesAndPwds"

section \<open>Image crypto orchestrator\<close>

text \<open>
  \<open>parsePlatformArray\<close>; \<open>parse\<close> is \<open>platforms.Parse\<close>.
\<close>

fun parseLoop ::
  "(string \<Rightarrow> error + Platform) \<Rightarrow> Platform list \<Rightarrow> string list \<Rightarrow> error + Platform list" where
  "parseLoop parse speclist [] = Inr speclist"
| "parseLoop parse speclist (specifier # rest) =
     (case parse specifier of
        Inl err \<Rightarrow> Inl err
      | Inr spec \<Rightarrow> parseLoop parse (speclist @ [spec]) rest)"

definition parsePlatformArray ::
  "(string \<Rightarrow> error + Platform) \<Rightarrow> string list \<Rightarrow> error + Platform list" where
  "parsePlatformArray parse specifiers = parseLoop parse [] specifiers"

text \<open>
  An image (\<open>images.Image\<close>, and the handle \<open>containerd.Image\<close> that wraps one), the
  options of a call, and what the client reaches for: the platform parser, the
  layer descriptors of a target (\<open>images.GetImageLayerDescriptors\<close>), the lease
  (\<open>WithLease\<close> is the error of acquiring one, or nil), the two per-layer transforms
  of \<open>imgenc\<close>, which return an error or a descriptor with the \<open>modified\<close> flag, and
  \<open>Create\<close> of the image service, which returns an error or the record it stored.
  The state holds the records of the image service and the number of open
  leases; the content store belongs to the transforms.
\<close>

record Image =
  Name :: string
  Target :: Descriptor
  Labels :: "(string \<times> string) list"

record CryptOptConfig =
  Platforms :: "string list"
  Layers :: "int32 list"

type_synonym CryptOpt = "CryptOptConfig \<Rightarrow> CryptOptConfig"

definition WithPlatforms :: "string list \<Rightarrow> CryptOpt" where
  "WithPlatforms platforms = (\<lambda>c. c\<lparr>Platforms := platforms\<rparr>)"

definition WithLayers :: "int32 list \<Rightarrow> CryptOpt" where
  "WithLayers layers = (\<lambda>c. c\<lparr>Layers := layers\<rparr>)"

definition applyOpts :: "CryptOpt list \<Rightarrow> CryptOptConfig" where
  "applyOpts opts = foldl (\<lambda>optConfig opt. opt optConfig) \<lparr>Platforms = [], Layers = []\<rparr> opts"

record 'cfg crypt_env =
  layerEnv :: layer_env
  platformsParse :: "string \<Rightarrow> error + Platform"
  GetImageLayerDescriptors :: "Descriptor \<Rightarrow> error + Descriptor list"
  WithLease :: "error option"
  imgencEncryptImage :: "Descriptor \<Rightarrow> 'cfg \<Rightarrow> (Descriptor \<Rightarrow> bool) \<Rightarrow> error + (Descriptor \<times> bool)"
  imgencDecryptImage :: "Descriptor \<Rightarrow> 'cfg \<Rightarrow> (Descriptor \<Rightarrow> bool) \<Rightarrow> error + (Descriptor \<times> bool)"
  Create :: "Image list \<Rightarrow> Image \<Rightarrow> error + Image"

record client_state =
  ImageService :: "Image list"
  Leases :: nat

text \<open>\<open>createLayerFilter\<close>; \<open>digestLoop\<close> is the loop of the predicate it returns,
  over the selected descriptors (\<open>descs\<close> in the source).\<close>

fun digestLoop :: "Descriptor \<Rightarrow> Descriptor list \<Rightarrow> bool" where
  "digestLoop d [] = False"
| "digestLoop d (desc # rest) = (if Digest desc = Digest d then True else digestLoop d rest)"

definition createLayerFilter ::
  "'cfg crypt_env \<Rightarrow> Descriptor \<Rightarrow> int32 list \<Rightarrow> Platform list \<Rightarrow> error + (Descriptor \<Rightarrow> bool)" where
  "createLayerFilter E desc layers platformList =
     (case GetImageLayerDescriptors E desc of
        Inl err \<Rightarrow> Inl err
      | Inr alldescs \<Rightarrow>
          (case filterLayerDescriptors (layerEnv E) alldescs layers platformList of
             Inl err \<Rightarrow> Inl err
           | Inr (lis, selected) \<Rightarrow> Inr (\<lambda>d. digestLoop d selected)))"

text \<open>
  \<open>EncryptImage\<close> and \<open>DecryptImage\<close>. Acquiring the lease opens one; the deferred
  \<open>done\<close> closes it on every return after that, which is \<open>release\<close>. The
  parameter \<open>image\<close> of the source is \<open>img\<close> here.
\<close>

definition release :: "(error + Image) \<times> client_state \<Rightarrow> (error + Image) \<times> client_state" where
  "release r = (fst r, (snd r)\<lparr>Leases := Leases (snd r) - 1\<rparr>)"

definition EncryptImage ::
  "'cfg crypt_env \<Rightarrow> client_state \<Rightarrow> Image \<Rightarrow> string \<Rightarrow> 'cfg \<Rightarrow> CryptOpt list \<Rightarrow>
   (error + Image) \<times> client_state" where
  "EncryptImage E st img name config opts =
     (let optConfig = applyOpts opts in
      case parsePlatformArray (platformsParse E) (Platforms optConfig) of
        Inl err \<Rightarrow> (Inl err, st)
      | Inr pl \<Rightarrow>
          (case createLayerFilter E (Target img) (Layers optConfig) pl of
             Inl err \<Rightarrow> (Inl err, st)
           | Inr lf \<Rightarrow>
               (case WithLease E of
                  Some err \<Rightarrow> (Inl err, st)
                | None \<Rightarrow>
                    (let st1 = st\<lparr>Leases := Leases st + 1\<rparr> in
                     release
                       (case imgencEncryptImage E (Target img) config lf of
                          Inl err \<Rightarrow> (Inl err, st1)
                        | Inr (desc, modified) \<Rightarrow>
                            if \<not> modified then (Inr img, st1)
                            else (let newImage = \<lparr>Name = name, Target = desc, Labels = Labels img\<rparr> in
                                  case Create E (ImageService st1) newImage of
                                    Inl err \<Rightarrow> (Inl err, st1)
                                  | Inr i \<Rightarrow>
                                      (Inr i, st1\<lparr>ImageService := ImageService st1 @ [i]\<rparr>)))))))"

definition DecryptImage ::
  "'cfg crypt_env \<Rightarrow> client_state \<Rightarrow> Image \<Rightarrow> string \<Rightarrow> 'cfg \<Rightarrow> CryptOpt list \<Rightarrow>
   (error + Image) \<times> client_state" where
  "DecryptImage E st img name config opts =
     (let optConfig = applyOpts opts in
      case parsePlatformArray (platformsParse E) (Platforms optConfig) of
        Inl err \<Rightarrow> (Inl err, st)
      | Inr pl \<Rightarrow>
          (case createLayerFilter E (Target img) (Layers optConfig) pl of
             Inl err \<Rightarrow> (Inl err, st)
           | Inr lf \<Rightarrow>
               (case WithLease E of
                  Some err \<Rightarrow> (Inl err, st)
                | None \<Rightarrow>
                    (let st1 = st\<lparr>Leases := Leases st + 1\<rparr> in
                     release
                       (case imgencDecryptImage E (Target img) config lf of
                          Inl err \<Rightarrow> (Inl err, st1)
                        | Inr (desc, modified) \<Rightarrow>
                            if \<not> modified then (Inr img, st1)
                            else (let newImage = \<lparr>Name = name, Target = desc, Labels = Labels img\<rparr> in
                                  case Create E (ImageService st1) newImage of
                                    Inl err \<Rightarrow> (Inl err, st1)
                                  | Inr i \<Rightarrow>
                                      (Inr i, st1\<lparr>ImageService := ImageService st1 @ [i]\<rparr>)))))))"

section \<open>Side-channel payload protocol\<close>

text \<open>
  \<open>ProcessorPayload\<close>; the decrypt configuration is a value of the encryption
  library, of a type \<open>'dc\<close> this code only passes on. \<open>Any\<close> is the envelope
  \<open>types.Any\<close>: a type tag and the encoded value. \<open>typeurl.UnmarshalAny\<close> hands back
  a value of some registered type, which the receiver tests with a type assertion:
  \<open>Payload\<close> is a \<open>*ProcessorPayload\<close>, \<open>Other\<close> a value of any other type.
  The codecs themselves (\<open>proto.Marshal\<close> and \<open>proto.Unmarshal\<close>, \<open>typeurl.MarshalAny\<close>
  and \<open>typeurl.UnmarshalAny\<close>) belong to the environment.
\<close>

record 'dc ProcessorPayload =
  DecryptConfig :: 'dc
  Descriptor :: Descriptor

record Any =
  TypeUrl :: string
  Value :: bytes

datatype ('dc, 'o) registered = Payload "'dc ProcessorPayload" | Other 'o

record ('dc, 'o) codec_env =
  protoMarshal :: "Any \<Rightarrow> error + bytes"
  protoUnmarshal :: "bytes \<Rightarrow> error + Any"
  MarshalAny :: "('dc, 'o) registered \<Rightarrow> error + Any"
  UnmarshalAny :: "Any \<Rightarrow> error + ('dc, 'o) registered"

definition UnmarshalLayerToolDecryptData ::
  "('dc, 'o) codec_env \<Rightarrow> bytes \<Rightarrow> error + 'dc ProcessorPayload" where
  "UnmarshalLayerToolDecryptData E decryptData =
     (case protoUnmarshal E decryptData of
        Inl err \<Rightarrow> Inl (Wrap err ''could not proto.Unmarshal() decrypt data'')
      | Inr pb \<Rightarrow>
          (case UnmarshalAny E pb of
             Inl err \<Rightarrow> Inl (Wrap err ''could not UnmarshalAny() the decrypt data'')
           | Inr v \<Rightarrow>
               (case v of
                  Payload data \<Rightarrow> Inr data
                | Other x \<Rightarrow>
                    Inl (New (''received an unknown data type '' @ [CHR 0x27] @ TypeUrl pb @
                              [CHR 0x27])))))"

text \<open>
  \<open>WithDecryptedImageUnpack\<close>. \<open>payloadUnpackOpt\<close> is the function it appends to
  the unpack options: it makes the map of payloads when that is nil, marshals the
  payload and stores the envelope under the two layer-tool keys. The apply
  configuration is changed in place, so it is returned next to the error.
\<close>

record ApplyConfig =
  ProcessorPayloads :: "(string \<rightharpoonup> Any) option"

definition payloadUnpackOpt ::
  "('dc, 'o) codec_env \<Rightarrow> 'dc \<Rightarrow> Descriptor \<Rightarrow> ApplyConfig \<Rightarrow> error option \<times> ApplyConfig" where
  "payloadUnpackOpt E config desc c =
     (let payloads = (case ProcessorPayloads c of None \<Rightarrow> Map.empty | Some m \<Rightarrow> m);
          p = \<lparr>DecryptConfig = config, Descriptor = desc\<rparr>
      in case MarshalAny E (Payload p) of
           Inl err \<Rightarrow>
             (Some (Wrap err ''failed to marshal payload''), c\<lparr>ProcessorPayloads := Some payloads\<rparr>)
         | Inr any \<Rightarrow>
             (None, c\<lparr>ProcessorPayloads :=
                       Some (payloads(''io.containerd.layertool.tar'' \<mapsto> any,
                                      ''io.containerd.layertool.tar.gzip'' \<mapsto> any))\<rparr>))"

record RemoteContext =
  Unpack :: bool
  UnpackOpts :: "(Descriptor \<Rightarrow> ApplyConfig \<Rightarrow> error option \<times> ApplyConfig) list"

definition WithDecryptedImageUnpack ::
  "('dc, 'o) codec_env \<Rightarrow> 'dc \<Rightarrow> RemoteContext \<Rightarrow> error option \<times> RemoteContext" where
  "WithDecryptedImageUnpack E config c =
     (None, c\<lparr>Unpack := True, UnpackOpts := UnpackOpts c @ [payloadUnpackOpt E config]\<rparr>)"

section \<open>The stream command\<close>

text \<open>
  The copy loop of the stream command. \<open>CopyN io n\<close> is \<open>io.CopyN\<close> from the
  plaintext reader to the output file for \<open>n\<close> bytes: it gives the state of the
  two afterwards and the error, or nil. The loop ends only when \<open>CopyN\<close> returns
  an error, so on a stream without end it does not return, which is \<open>None\<close>.
\<close>

partial_function (option) copyLoop ::
  "('io \<Rightarrow> nat \<Rightarrow> 'io \<times> error option) \<Rightarrow> 'io \<Rightarrow> ('io \<times> error option) option" where
  "copyLoop copy io =
     (case copy io (10 * 1024) of
        (io', None) \<Rightarrow> copyLoop copy io'
      | (io', Some err) \<Rightarrow>
          if err = EOF then Some (io', None)
          else Some (io', Some (Wrap err ''could not copy data'')))"

text \<open>
  \<open>ReadDecryptData\<close> and the action of the command. \<open>configFd\<close> is descriptor 3:
  \<open>None\<close> when \<open>os.NewFile\<close> gives nil, else what reading it to the end gives.
  \<open>layerOutFile\<close> and \<open>layerInFile\<close> say whether the files of standard output
  and input are not nil. \<open>DecryptLayer\<close> returns an error or the state in which
  the plaintext reader is open.
\<close>

record ('dc, 'o, 'io) stream_env =
  codec :: "('dc, 'o) codec_env"
  configFd :: "(error + bytes) option"
  layerOutFile :: bool
  layerInFile :: bool
  DecryptLayer :: "'dc \<Rightarrow> Descriptor \<Rightarrow> error + 'io"
  CopyN :: "'io \<Rightarrow> nat \<Rightarrow> 'io \<times> error option"

definition ReadDecryptData :: "('dc, 'o, 'io) stream_env \<Rightarrow> error + bytes" where
  "ReadDecryptData E =
     (case configFd E of
        None \<Rightarrow> Inl (New ''config data file descriptor 3 is invalid'')
      | Some r \<Rightarrow> r)"

definition streamCommand :: "('dc, 'o, 'io) stream_env \<Rightarrow> ('io option \<times> error option) option" where
  "streamCommand E =
     (case ReadDecryptData E of
        Inl err \<Rightarrow> Some (None, Some (Wrap err ''could not read config data''))
      | Inr decryptData \<Rightarrow>
          if \<not> layerOutFile E
          then Some (None, Some (New ''layer output file descriptor 1 is invalid''))
          else if \<not> layerInFile E
          then Some (None, Some (New ''layer input file descriptor 0 is invalid''))
          else (case UnmarshalLayerToolDecryptData (codec E) decryptData of
                  Inl err \<Rightarrow> Some (None, Some err)
                | Inr ltd \<Rightarrow>
                    (case DecryptLayer E (DecryptConfig ltd) (ProcessorPayload.Descriptor ltd) of
                       Inl err \<Rightarrow> Some (None, Some (Wrap err ''call to DecryptLayer failed''))
                     | Inr io \<Rightarrow>
                         (case copyLoop (CopyN E) io of
                            None \<Rightarrow> None
                          | Some (io', r) \<Rightarrow> Some (Some io', r)))))"

text \<open>The state after \<open>k\<close> chunks of 10 KiB have been copied without an error.\<close>

fun afterChunks :: "('io \<Rightarrow> nat \<Rightarrow> 'io \<times> error option) \<Rightarrow> nat \<Rightarrow> 'io \<Rightarrow> 'io" where
  "afterChunks copy 0 io = io"
| "afterChunks copy (Suc k) io = afterChunks copy k (fst (copy io (10 * 1024)))"

section \<open>Crypto config composer\<close>

text \<open>
  Modelled from the spec: \<open>encconfig.CryptoConfig\<close> and \<open>encconfig.CombineCryptoConfigs\<close>,
  which the repository calls (in \<open>CreateDecryptCryptoConfig\<close> and the encrypt
  command) and does not define. Following sections 3, 4.3 and 9 of the
  specification, a backend configuration is one of the three variants (PGP,
  public-key envelope, certificate envelope) with its cryptographic material.
\<close>

datatype backend = PGP "bytes list" | PublicKeyEnvelope "bytes list" | CertificateEnvelope "bytes list"

text \<open>
  Modelled from the spec: the configuration of section 3, ``an accumulator holding
  zero or more encrypt-side and decrypt-side backend configurations'', and the
  empty configuration.
\<close>

record CryptoConfig =
  encryptBackends :: "backend list"
  decryptBackends :: "backend list"

definition emptyConfig :: CryptoConfig where
  "emptyConfig = \<lparr>encryptBackends = [], decryptBackends = []\<rparr>"

text \<open>
  Modelled from the spec: the union of section 4.3, which keeps the order in which
  the backend configurations were supplied and does not add one that is already
  there (``idempotent union by backend identity'').
\<close>

definition unionBackends :: "backend list \<Rightarrow> backend list \<Rightarrow> backend list" where
  "unionBackends xs ys = xs @ filter (\<lambda>y. y \<notin> set xs) ys"

definition combineTwo :: "CryptoConfig \<Rightarrow> CryptoConfig \<Rightarrow> CryptoConfig" where
  "combineTwo a b =
     \<lparr>encryptBackends = unionBackends (encryptBackends a) (encryptBackends b),
      decryptBackends = unionBackends (decryptBackends a) (decryptBackends b)\<rparr>"

text \<open>
  Modelled from the spec: \<open>combine(configs)\<close> of section 4.3 (\<open>CombineCryptoConfigs\<close>
  in the callers), which ``returns one CryptoConfig whose encrypt-backend set and
  decrypt-backend set are each the union, preserving the order configs were
  supplied''.
\<close>

definition CombineCryptoConfigs :: "CryptoConfig list \<Rightarrow> CryptoConfig" where
  "CombineCryptoConfigs ccs = foldl combineTwo emptyConfig ccs"

section \<open>The payload on the wire\<close>

text \<open>
  Modelled from the spec: the ``self-describing, type-tagged binary form'' of
  section 4.5 and the serialization format of section 6, ``a type-tagged Any
  envelope wrapping the ProcessorPayload fields (\<open>decrypt_config\<close>, \<open>descriptor\<close>)
  under a fixed type identifier''. The repository leaves the encoding to the
  libraries \<open>typeurl\<close> and \<open>proto\<close>, which it calls and does not define. Here a
  sequence of fields is written field by field, each as its length followed by its
  bytes; a length is written in base 128, low digits first, with the high bit set
  on every byte but the last.
\<close>

fun varint :: "nat \<Rightarrow> bytes" where
  "varint n = (if n < 128 then [char_of n] else char_of (128 + n mod 128) # varint (n div 128))"

fun unvarint :: "bytes \<Rightarrow> (nat \<times> bytes) option" where
  "unvarint [] = None"
| "unvarint (c # cs) =
     (if of_char c < (128 :: nat) then Some (of_char c, cs)
      else (case unvarint cs of
              None \<Rightarrow> None
            | Some (n, rest) \<Rightarrow> Some (of_char c - 128 + 128 * n, rest)))"

fun frame :: "bytes list \<Rightarrow> bytes" where
  "frame [] = []"
| "frame (f # fs) = varint (length f) @ f @ frame fs"

function unframe :: "bytes \<Rightarrow> bytes list option" where
  "unframe bs =
     (if bs = [] then Some []
      else (case unvarint bs of
              None \<Rightarrow> None
            | Some (n, rest) \<Rightarrow>
                if length rest < n then None
                else (case unframe (drop n rest) of
                        None \<Rightarrow> None
                      | Some fs \<Rightarrow> Some (take n rest # fs))))"
  by pat_completeness auto

termination
proof (relation "measure length")
  show "wf (measure length)" by simp
next
  fix bs :: bytes and x2 :: "nat \<times> bytes" and n :: nat and rest :: bytes
  assume "unvarint bs = Some x2" and "(n, rest) = x2"
  then have dec: "unvarint bs = Some (n, rest)" by simp
  have "\<forall>m r. unvarint cs = Some (m, r) \<longrightarrow> length r < length cs" for cs
    by (induction cs) (auto split: if_splits option.splits)
  with dec have "length rest < length bs" by blast
  then show "(drop n rest, bs) \<in> measure length" by simp
qed

text \<open>
  Modelled from the spec: the fields of a payload. An integer is a sign and its
  magnitude. A platform is its three strings. A descriptor is written by value:
  its media type, digest and size, and then the platform its pointer leads to in
  the memory \<open>mem\<close> of the sender, left out when the pointer is nil. The receiver
  builds the platform it reads at an address \<open>place\<close> of its own; \<open>decDescriptor\<close>
  gives the descriptor and the memory that holds this platform.
\<close>

definition encInt :: "int \<Rightarrow> bytes" where
  "encInt i = (if 0 \<le> i then CHR ''+'' else CHR ''-'') # varint (nat \<bar>i\<bar>)"

definition decInt :: "bytes \<Rightarrow> int option" where
  "decInt bs =
     (case bs of
        [] \<Rightarrow> None
      | c # cs \<Rightarrow>
          (case unvarint cs of
             None \<Rightarrow> None
           | Some (n, rest) \<Rightarrow>
               if rest \<noteq> [] then None
               else if c = CHR ''+'' then Some (int n)
               else if c = CHR ''-'' then Some (- int n)
               else None))"

definition encPlatform :: "Platform \<Rightarrow> bytes" where
  "encPlatform p = frame [Architecture p, OS p, Variant p]"

definition decPlatform :: "bytes \<Rightarrow> Platform option" where
  "decPlatform bs =
     (case unframe bs of
        Some [a, s, v] \<Rightarrow> Some \<lparr>Architecture = a, OS = s, Variant = v\<rparr>
      | _ \<Rightarrow> None)"

definition encDescriptor :: "(ptr \<Rightarrow> Platform) \<Rightarrow> Descriptor \<Rightarrow> bytes" where
  "encDescriptor mem d =
     frame ([MediaType d, Digest d, encInt (Size d)] @
            (case Platform d of None \<Rightarrow> [] | Some a \<Rightarrow> [encPlatform (mem a)]))"

definition decDescriptor :: "ptr \<Rightarrow> bytes \<Rightarrow> (Descriptor \<times> (ptr \<rightharpoonup> Platform)) option" where
  "decDescriptor place bs =
     (case unframe bs of
        Some (m # dg # sz # extra) \<Rightarrow>
          (case decInt sz of
             None \<Rightarrow> None
           | Some n \<Rightarrow>
               (case extra of
                  [] \<Rightarrow> Some (\<lparr>MediaType = m, Digest = dg, Size = n, Platform = None\<rparr>, Map.empty)
                | [pl] \<Rightarrow>
                    (case decPlatform pl of
                       None \<Rightarrow> None
                     | Some p \<Rightarrow>
                         Some (\<lparr>MediaType = m, Digest = dg, Size = n, Platform = Some place\<rparr>,
                               [place \<mapsto> p]))
                | _ \<Rightarrow> None))
      | _ \<Rightarrow> None)"

text \<open>
  Modelled from the spec: the decrypt configuration, which is the decrypt side of
  a \<open>CryptoConfig\<close> (section 3): backend configurations, each written as the name
  of its protocol and its key material.
\<close>

definition encBackend :: "backend \<Rightarrow> bytes" where
  "encBackend b =
     (case b of
        PGP ks \<Rightarrow> frame (''pgp'' # ks)
      | PublicKeyEnvelope ks \<Rightarrow> frame (''jwe'' # ks)
      | CertificateEnvelope ks \<Rightarrow> frame (''pkcs7'' # ks))"

definition decBackend :: "bytes \<Rightarrow> backend option" where
  "decBackend bs =
     (case unframe bs of
        Some (t # ks) \<Rightarrow>
          if t = ''pgp'' then Some (PGP ks)
          else if t = ''jwe'' then Some (PublicKeyEnvelope ks)
          else if t = ''pkcs7'' then Some (CertificateEnvelope ks)
          else None
      | _ \<Rightarrow> None)"

definition encConfig :: "backend list \<Rightarrow> bytes" where
  "encConfig dc = frame (map encBackend dc)"

definition decConfig :: "bytes \<Rightarrow> backend list option" where
  "decConfig bs = (case unframe bs of None \<Rightarrow> None | Some fs \<Rightarrow> those (map decBackend fs))"

text \<open>
  Modelled from the spec: the value of the envelope, which holds the two fields of
  the payload under their names (the names are those of the \<open>json\<close> tags of
  \<open>ProcessorPayload\<close>), and the bytes of the envelope itself, its type identifier
  and its value.
\<close>

definition encPayload :: "(ptr \<Rightarrow> Platform) \<Rightarrow> backend list ProcessorPayload \<Rightarrow> bytes" where
  "encPayload mem p =
     frame [''decrypt_config'', encConfig (DecryptConfig p),
            ''descriptor'', encDescriptor mem (ProcessorPayload.Descriptor p)]"

definition decPayload ::
  "ptr \<Rightarrow> bytes \<Rightarrow> (backend list ProcessorPayload \<times> (ptr \<rightharpoonup> Platform)) option" where
  "decPayload place bs =
     (case unframe bs of
        Some [k1, c, k2, d] \<Rightarrow>
          if k1 = ''decrypt_config'' \<and> k2 = ''descriptor'' then
            (case decConfig c of
               None \<Rightarrow> None
             | Some dc \<Rightarrow>
                 (case decDescriptor place d of
                    None \<Rightarrow> None
                  | Some (desc, mem) \<Rightarrow> Some (\<lparr>DecryptConfig = dc, Descriptor = desc\<rparr>, mem)))
          else None
      | _ \<Rightarrow> None)"

definition encAny :: "Any \<Rightarrow> bytes" where
  "encAny a = frame [TypeUrl a, Value a]"

definition decAny :: "bytes \<Rightarrow> Any option" where
  "decAny bs = (case unframe bs of Some [t, v] \<Rightarrow> Some \<lparr>TypeUrl = t, Value = v\<rparr> | _ \<Rightarrow> None)"

text \<open>
  The type identifier under which \<open>init\<close> registers \<open>ProcessorPayload\<close>.
\<close>

definition payloadTypeUrl :: string where
  "payloadTypeUrl = ''com.ibm.research.v1.ProcessorPayload''"

text \<open>
  Modelled from the spec: the codecs of sender and receiver. \<open>MarshalAny\<close> wraps
  the encoded payload under the fixed type identifier; \<open>UnmarshalAny\<close> looks at
  the type identifier alone to choose the type it decodes, the payload for the
  fixed identifier and otherwise the type that \<open>others\<close> has registered under the
  identifier, with its own decoder. \<open>mem\<close> is the memory of the sender, \<open>place\<close>
  the address at which the receiver builds a platform, \<open>otherAny\<close> the envelope
  of a value of another type.
\<close>

definition wireCodec ::
  "(ptr \<Rightarrow> Platform) \<Rightarrow> ptr \<Rightarrow> (string \<rightharpoonup> (bytes \<Rightarrow> 'o option)) \<Rightarrow> ('o \<Rightarrow> error + Any) \<Rightarrow>
   (backend list, 'o) codec_env" where
  "wireCodec mem place others otherAny =
     \<lparr>protoMarshal = (\<lambda>a. Inr (encAny a)),
      protoUnmarshal =
        (\<lambda>bs. case decAny bs of None \<Rightarrow> Inl (Lib ''malformed envelope'') | Some a \<Rightarrow> Inr a),
      MarshalAny =
        (\<lambda>v. case v of
                Payload p \<Rightarrow> Inr \<lparr>TypeUrl = payloadTypeUrl, Value = encPayload mem p\<rparr>
              | Other x \<Rightarrow> otherAny x),
      UnmarshalAny =
        (\<lambda>a. if TypeUrl a = payloadTypeUrl then
                (case decPayload place (Value a) of
                   None \<Rightarrow> Inl (Lib ''malformed payload'')
                 | Some (p, m) \<Rightarrow> Inr (Payload p))
              else
                (case others (TypeUrl a) of
                   None \<Rightarrow> Inl (Lib ''type not registered'')
                 | Some dec \<Rightarrow>
                     (case dec (Value a) of
                        None \<Rightarrow> Inl (Lib ''malformed value'')
                      | Some x \<Rightarrow> Inr (Other x))))\<rparr>"

text \<open>
  The platform that a descriptor leads to in a memory, for comparing descriptors
  of two processes by value.
\<close>

definition platformOf :: "(ptr \<rightharpoonup> Platform) \<Rightarrow> Descriptor \<Rightarrow> Platform option" where
  "platformOf m d = (case Platform d of None \<Rightarrow> None | Some a \<Rightarrow> m a)"

section \<open>Sample surroundings\<close>

text \<open>
  Concrete surroundings on which the theorems below are instantiated. The file
  system of \<open>sample_keys\<close> holds two private keys, \<open>k\<close> with the password
  \<open>s3:cret\<close> and \<open>k2\<close> with the password \<open>hunter2\<close>, a keyring, a public key and
  a certificate. Its test of a private key answers a nil password with the error
  of a missing password and any other password that does not fit with the error
  of a wrong one; both are password errors.
\<close>

definition sample_keys :: key_env where
  "sample_keys =
     \<lparr>ReadFile = (\<lambda>f. if f = ''k'' then Inr ''KEY1''
                     else if f = ''k2'' then Inr ''KEY2''
                     else if f = ''ring'' then Inr ''RING''
                     else if f = ''pub'' then Inr ''PUBLIC''
                     else if f = ''cert'' then Inr ''CERT''
                     else Inl (Lib ''no such file'')),
      IsPublicKey = (\<lambda>b. b = ''PUBLIC''),
      IsCertificate = (\<lambda>b. b = ''CERT''),
      IsPrivateKey = (\<lambda>b pw.
        if b = ''KEY1'' \<or> b = ''KEY2'' then
          (case pw of
             None \<Rightarrow> (False, Some (Lib ''missing password''))
           | Some p \<Rightarrow>
               if (b = ''KEY1'' \<and> p = ''s3:cret'') \<or> (b = ''KEY2'' \<and> p = ''hunter2'')
               then (True, None)
               else (False, Some (Lib ''wrong password'')))
        else (False, Some (Lib ''not a private key''))),
      IsPasswordError = (\<lambda>err. err = Some (Lib ''missing password'') \<or>
                                err = Some (Lib ''wrong password'')),
      IsGPGPrivateKeyRing = (\<lambda>b. b = ''RING''),
      Atoi = (\<lambda>s. Inl (Lib ''invalid syntax'')),
      NewFile = (\<lambda>fd. None),
      Read = (\<lambda>f n. ([], None))\<rparr>"

definition sample_layer :: "string \<Rightarrow> ptr option \<Rightarrow> Descriptor" where
  "sample_layer d p = \<lparr>MediaType = ''layer'', Digest = d, Size = 1, Platform = p\<rparr>"

definition sample_layers :: "Descriptor list" where
  "sample_layers =
     [sample_layer ''sha256:01'' (Some 0), sample_layer ''sha256:02'' (Some 0),
      sample_layer ''sha256:03'' (Some 1)]"

definition sample_image :: Image where
  "sample_image = \<lparr>Name = ''app'', Target = sample_layer ''sha256:00'' None, Labels = []\<rparr>"

definition sample_client :: "string crypt_env" where
  "sample_client =
     \<lparr>layerEnv = \<lparr>deref = (\<lambda>a. \<lparr>Architecture = ''amd64'', OS = ''linux'', Variant = []\<rparr>),
                  Match = (\<lambda>m p. m = p)\<rparr>,
      platformsParse = (\<lambda>s. Inl (Lib ''invalid platform'')),
      GetImageLayerDescriptors =
        (\<lambda>d. Inr [sample_layer ''sha256:01'' (Some 0), sample_layer ''sha256:02'' (Some 0)]),
      WithLease = None,
      imgencEncryptImage = (\<lambda>target config lf. Inr (target, False)),
      imgencDecryptImage = (\<lambda>target config lf. Inr (target, False)),
      Create = (\<lambda>store i. Inr i)\<rparr>"

definition sample_payload :: "string ProcessorPayload" where
  "sample_payload = \<lparr>DecryptConfig = ''keys'', Descriptor = sample_layer ''sha256:01'' None\<rparr>"

definition sample_envelope :: Any where
  "sample_envelope = \<lparr>TypeUrl = ''com.ibm.research.v1.ProcessorPayload'', Value = ''{payload}''\<rparr>"

definition other_envelope :: Any where
  "other_envelope = \<lparr>TypeUrl = ''types.containerd.io/opencontainers/runtime-spec/1/Spec'',
                      Value = ''{spec}''\<rparr>"

definition sample_codec :: "(string, unit) codec_env" where
  "sample_codec =
     \<lparr>protoMarshal = (\<lambda>a. if a = sample_envelope then Inr ''wire-payload''
                         else if a = other_envelope then Inr ''wire-spec''
                         else Inl (Lib ''cannot marshal'')),
      protoUnmarshal = (\<lambda>b. if b = ''wire-payload'' then Inr sample_envelope
                           else if b = ''wire-spec'' then Inr other_envelope
                           else Inl (Lib ''cannot unmarshal'')),
      MarshalAny = (\<lambda>v. if v = Payload sample_payload then Inr sample_envelope
                       else if v = Other () then Inr other_envelope
                       else Inl (Lib ''type not registered'')),
      UnmarshalAny = (\<lambda>a. if a = sample_envelope then Inr (Payload sample_payload)
                         else if a = other_envelope then Inr (Other ())
                         else Inl (Lib ''type not registered''))\<rparr>"

text \<open>
  The codecs of the wire form between a sender whose memory holds the platform of
  \<open>sample_client\<close> at every address and a receiver that builds platforms at
  address 7 and has one other type registered, whose value is \<open>()\<close>.
\<close>

definition sample_wire :: "(backend list, unit) codec_env" where
  "sample_wire =
     wireCodec (deref (layerEnv sample_client)) 7
       [''types.containerd.io/opencontainers/runtime-spec/1/Spec'' \<mapsto> (\<lambda>bs. Some ())]
       (\<lambda>x. Inr other_envelope)"

definition sample_config :: "backend list" where
  "sample_config = [PublicKeyEnvelope [''KEY1''], PGP [''RING'', ''hunter2'']]"

definition sample_wire_envelope :: Any where
  "sample_wire_envelope =
     \<lparr>TypeUrl = payloadTypeUrl,
      Value = encPayload (deref (layerEnv sample_client))
                \<lparr>DecryptConfig = sample_config, Descriptor = sample_layer ''sha256:01'' (Some 0)\<rparr>\<rparr>"

text \<open>
  A reader and a writer over lists: the state is the plaintext still to be read
  and the output written so far; \<open>sample_copy\<close> moves \<open>n\<close> bytes, or what is
  left with the error \<open>io.EOF\<close> when fewer than \<open>n\<close> remain; \<open>broken_copy\<close> fails
  at once with another error.
\<close>

definition sample_copy :: "bytes \<times> bytes \<Rightarrow> nat \<Rightarrow> (bytes \<times> bytes) \<times> error option" where
  "sample_copy io n =
     (if n \<le> length (fst io) then ((drop n (fst io), snd io @ take n (fst io)), None)
      else (([], snd io @ fst io), Some EOF))"

definition broken_copy :: "bytes \<times> bytes \<Rightarrow> nat \<Rightarrow> (bytes \<times> bytes) \<times> error option" where
  "broken_copy io n = (io, Some (Lib ''broken pipe''))"

definition sample_stream :: "(string, unit, bytes \<times> bytes) stream_env" where
  "sample_stream =
     \<lparr>codec = sample_codec,
      configFd = Some (Inr ''wire-payload''),
      layerOutFile = True,
      layerInFile = True,
      DecryptLayer = (\<lambda>dc d. Inr (''xyz'', [])),
      CopyN = sample_copy\<rparr>"

section \<open>Properties of the layer selector\<close>

lemma layersLoop_iff: "layersLoop neg idx ls \<longleftrightarrow> neg \<in> set ls \<or> idx \<in> set ls"
  by (induction ls) auto

lemma isUserSelectedLayer_iff:
  "isUserSelectedLayer i n ls \<longleftrightarrow> ls = [] \<or> i - n \<in> set ls \<or> i \<in> set ls"
  by (auto simp: isUserSelectedLayer_def layersLoop_iff)

lemma sint_sub_in_range:
  fixes j n :: int32
  assumes "0 \<le> sint j" "sint j < sint n"
  shows "sint (j - n) = sint j - sint n"
proof -
  have "sint n < 2 ^ 31" using sint_lt [of n] by simp
  moreover have "- (2 ^ 31) \<le> sint j" using sint_ge [of j] by simp
  ultimately show ?thesis using assms
    by (simp add: sint_word_ariths signed_take_bit_int_eq_self)
qed

lemma sint_of_nat_small:
  assumes "n < 2 ^ 31"
  shows "sint (of_nat n :: int32) = int n"
proof -
  have "int n < 2 ^ 31" using assms by (simp flip: of_nat_less_iff)
  then show ?thesis by (simp add: signed_of_nat signed_take_bit_int_eq_self)
qed

text \<open>
  Claim C2. Take a platform with \<open>N\<close> layers and an index \<open>i\<close> with \<open>0 \<le> i < N\<close>
  (as signed 32-bit numbers). A selector list that contains \<open>i\<close> selects layer
  \<open>i\<close>, and so does one that contains \<open>i - N\<close>. Moreover, writing \<open>i - N\<close> in
  place of \<open>i\<close> anywhere in a selector list changes the answer for no layer \<open>j\<close>
  of the platform: the positive and the negative selector of a layer are
  interchangeable.
\<close>

theorem negative_index_symmetry:
  fixes i N :: int32
  assumes "0 \<le> sint i" and "sint i < sint N"
  shows "(i \<in> set ls \<longrightarrow> isUserSelectedLayer i N ls) \<and>
         (i - N \<in> set ls \<longrightarrow> isUserSelectedLayer i N ls) \<and>
         (\<forall>j xs ys. 0 \<le> sint j \<and> sint j < sint N \<longrightarrow>
            isUserSelectedLayer j N (xs @ i # ys) = isUserSelectedLayer j N (xs @ (i - N) # ys))"
proof (intro conjI allI impI)
  show "isUserSelectedLayer i N ls" if "i \<in> set ls"
    using that by (simp add: isUserSelectedLayer_iff)
  show "isUserSelectedLayer i N ls" if "i - N \<in> set ls"
    using that by (simp add: isUserSelectedLayer_iff)
next
  fix j :: int32 and xs ys :: "int32 list"
  assume j: "0 \<le> sint j \<and> sint j < sint N"
  have neg_i: "sint (i - N) < 0" using assms by (simp add: sint_sub_in_range)
  have neg_j: "sint (j - N) < 0" using j by (simp add: sint_sub_in_range)
  have a: "i \<noteq> j - N" using neg_j assms(1) by auto
  have b: "i - N \<noteq> j" using neg_i j by auto
  have c: "i - N = j - N \<longleftrightarrow> i = j" by simp
  show "isUserSelectedLayer j N (xs @ i # ys) = isUserSelectedLayer j N (xs @ (i - N) # ys)"
    using a b c by (auto simp: isUserSelectedLayer_iff)
qed

theorem negative_index_symmetry_witness:
  "0 \<le> sint (2 :: int32) \<and> sint (2 :: int32) < sint (3 :: int32) \<and>
   isUserSelectedLayer 2 3 [0, 2] \<and> isUserSelectedLayer 2 3 [0, 2 - 3] \<and>
   isUserSelectedLayer 1 3 [2] = isUserSelectedLayer 1 3 [2 - 3] \<and>
   \<not> isUserSelectedLayer 1 3 [2 - 3]"
proof -
  have h1: "0 \<le> sint (2 :: int32)" by simp
  have h2: "sint (2 :: int32) < sint (3 :: int32)" by simp
  have h3: "0 \<le> sint (1 :: int32) \<and> sint (1 :: int32) < sint (3 :: int32)" by simp
  note t = negative_index_symmetry [OF h1 h2]
  have "isUserSelectedLayer 2 3 [0, 2]" using t [of "[0, 2]"] by simp
  moreover have "isUserSelectedLayer 2 3 [0, 2 - 3]" using t [of "[0, 2 - 3]"] by simp
  moreover have "isUserSelectedLayer 1 3 ([] @ 2 # []) = isUserSelectedLayer 1 3 ([] @ (2 - 3) # [])"
    using t [of "[]"] h3 by blast
  moreover have "\<not> isUserSelectedLayer 1 3 [2 - 3]"
    by (simp add: isUserSelectedLayer_def)
  ultimately show ?thesis using h1 h2 by simp
qed

subsection \<open>The running index\<close>

lemma countLoop_eq:
  "countLoop p c ds = c + of_nat (length (filter (\<lambda>d. Platform d = p) ds))"
  by (induction ds arbitrary: c) simp_all

lemma countLayers_eq:
  "countLayers ds p = of_nat (length (filter (\<lambda>d. Platform d = p) ds))"
  by (simp add: countLayers_def countLoop_eq)

text \<open>The loop over a list is the loop over a first part, then over the rest from
  the state reached: the state after \<open>k\<close> iterations is the result of the loop
  over the first \<open>k\<close> descriptors.\<close>

lemma filterLoop_append:
  "filterLoop E alldescs ls pl s (xs @ ys) =
     (case filterLoop E alldescs ls pl s xs of
        Inl e \<Rightarrow> Inl e
      | Inr s' \<Rightarrow> filterLoop E alldescs ls pl s' ys)"
  by (induction xs arbitrary: s) (simp_all add: Let_def split: sum.splits bool.splits)

lemma filterLoop_single:
  assumes "filterLoop E alldescs ls pl s [d] = Inr s'"
  shows "curplat s' = curplat (advance alldescs s d) \<and>
         layerIndex s' = layerIndex (advance alldescs s d) \<and>
         layersTotal s' = layersTotal (advance alldescs s d)"
  using assms by (auto simp: Let_def split: if_splits sum.splits bool.splits)

lemma cursor_after:
  assumes "Platform (hd alldescs) \<noteq> None"
  shows "0 < k \<Longrightarrow> k \<le> length alldescs \<Longrightarrow>
         filterLoop E alldescs ls pl selector0 (take k alldescs) = Inr s \<Longrightarrow>
         curplat s = Platform (alldescs ! (k - 1)) \<and>
         layerIndex s = of_nat (runIndex alldescs (k - 1)) \<and>
         layersTotal s =
           of_nat (length (filter (\<lambda>d. Platform d = Platform (alldescs ! (k - 1))) alldescs))"
proof (induction k arbitrary: s)
  case 0
  then show ?case by simp
next
  case (Suc k)
  have lt: "k < length alldescs" using Suc.prems by simp
  have tk: "take (Suc k) alldescs = take k alldescs @ [alldescs ! k]"
    using lt by (simp add: take_Suc_conv_app_nth)
  from Suc.prems(3) obtain s0 where
    s0: "filterLoop E alldescs ls pl selector0 (take k alldescs) = Inr s0"
    and last: "filterLoop E alldescs ls pl s0 [alldescs ! k] = Inr s"
    unfolding tk filterLoop_append by (auto split: sum.splits)
  note cur = filterLoop_single [OF last]
  show ?case
  proof (cases k)
    case 0
    then have "s0 = selector0" using s0 by simp
    moreover have "alldescs ! 0 = hd alldescs" using lt by (cases alldescs) simp_all
    ultimately show ?thesis using cur 0 assms
      by (auto simp: advance_def selector0_def countLayers_eq)
  next
    case (Suc j)
    then have "0 < k" by simp
    from Suc.IH [OF this _ s0] lt have
      ih: "curplat s0 = Platform (alldescs ! (k - 1))"
        "layerIndex s0 = of_nat (runIndex alldescs (k - 1))"
        "layersTotal s0 =
           of_nat (length (filter (\<lambda>d. Platform d = Platform (alldescs ! (k - 1))) alldescs))"
      by simp_all
    show ?thesis using cur ih Suc
      by (auto simp: advance_def countLayers_eq)
  qed
qed

lemma runIndex_le: "runIndex ds k \<le> k"
  by (induction k) auto

lemma runIndex_in_run:
  "i \<le> j \<Longrightarrow> (i = 0 \<or> Platform (ds ! i) \<noteq> Platform (ds ! (i - 1))) \<Longrightarrow>
   (\<forall>m. i < m \<and> m \<le> j \<longrightarrow> Platform (ds ! m) = Platform (ds ! (m - 1))) \<Longrightarrow>
   runIndex ds j = j - i"
proof (induction j)
  case 0
  then show ?case by simp
next
  case (Suc j)
  show ?case
  proof (cases "i = Suc j")
    case True
    with Suc.prems show ?thesis by auto
  next
    case False
    with Suc.prems have le: "i \<le> j" by simp
    have "runIndex ds j = j - i" using Suc.IH [OF le] Suc.prems by auto
    moreover have "Platform (ds ! Suc j) = Platform (ds ! j)"
      using Suc.prems(3) [rule_format, of "Suc j"] le by simp
    ultimately show ?thesis using le by simp
  qed
qed

lemma select_all_step:
  "filterLoop E alldescs [] [] s [d] =
     Inr ((advance alldescs s d)
            \<lparr>descs := descs (advance alldescs s d) @ [d],
             layerInfos := layerInfos (advance alldescs s d) @
               [\<lparr>Index = layerIndex (advance alldescs s d), LayerInfo.Descriptor = d\<rparr>]\<rparr>)"
  by (simp add: Let_def isUserSelectedLayer_def isUserSelectedPlatform_def)

lemma advance_lists [simp]:
  "descs (advance alldescs s d) = descs s" "layerInfos (advance alldescs s d) = layerInfos s"
  by (simp_all add: advance_def)

lemma select_all_prefix:
  assumes "Platform (hd alldescs) \<noteq> None"
  shows "k \<le> length alldescs \<Longrightarrow>
         \<exists>s. filterLoop E alldescs [] [] selector0 (take k alldescs) = Inr s \<and>
             layerInfos s =
               map (\<lambda>j. \<lparr>Index = of_nat (runIndex alldescs j), LayerInfo.Descriptor = alldescs ! j\<rparr>)
                 [0..<k] \<and>
             descs s = take k alldescs"
proof (induction k)
  case 0
  show ?case by (simp add: selector0_def)
next
  case (Suc k)
  then have lt: "k < length alldescs" by simp
  from Suc.IH lt obtain s0 where
    s0: "filterLoop E alldescs [] [] selector0 (take k alldescs) = Inr s0"
    and li: "layerInfos s0 =
               map (\<lambda>j. \<lparr>Index = of_nat (runIndex alldescs j), LayerInfo.Descriptor = alldescs ! j\<rparr>)
                 [0..<k]"
    and ds: "descs s0 = take k alldescs"
    by auto
  have tk: "take (Suc k) alldescs = take k alldescs @ [alldescs ! k]"
    using lt by (simp add: take_Suc_conv_app_nth)
  define s1 where "s1 = advance alldescs s0 (alldescs ! k)"
  define s where "s = s1\<lparr>descs := descs s1 @ [alldescs ! k],
      layerInfos := layerInfos s1 @ [\<lparr>Index = layerIndex s1, LayerInfo.Descriptor = alldescs ! k\<rparr>]\<rparr>"
  have run: "filterLoop E alldescs [] [] selector0 (take (Suc k) alldescs) = Inr s"
    unfolding tk filterLoop_append by (simp only: s0 sum.case select_all_step s_def s1_def)
  have "layerIndex s = of_nat (runIndex alldescs k)"
    using cursor_after [OF assms _ Suc.prems run] by simp
  then have idx: "layerIndex s1 = of_nat (runIndex alldescs k)"
    by (simp add: s_def)
  have "layerInfos s =
      map (\<lambda>j. \<lparr>Index = of_nat (runIndex alldescs j), LayerInfo.Descriptor = alldescs ! j\<rparr>)
        [0..<Suc k]"
    by (simp add: s_def s1_def li idx [unfolded s1_def])
  moreover have "descs s = take (Suc k) alldescs"
    by (simp add: s_def s1_def ds tk)
  ultimately show ?case using run by blast
qed

lemma select_all:
  assumes "Platform (hd alldescs) \<noteq> None"
  shows "filterLayerDescriptors E alldescs [] [] =
     Inr (map (\<lambda>j. \<lparr>Index = of_nat (runIndex alldescs j), LayerInfo.Descriptor = alldescs ! j\<rparr>)
            [0..<length alldescs], alldescs)"
  using select_all_prefix [OF assms, of "length alldescs" E]
  by (auto simp: filterLayerDescriptors_def)

text \<open>
  Claim C1, as amended. Let the list be empty or its first descriptor carry a
  platform pointer. After \<open>k\<close> iterations of the loop of \<open>filterLayerDescriptors\<close>,
  whatever the layer and platform filters, the cursor is the platform pointer of
  descriptor \<open>k - 1\<close>, the running index is \<open>runIndex\<close> of that descriptor (0 at
  the first descriptor and wherever the pointer differs from the previous
  descriptor's pointer, one more than the previous index otherwise) and
  \<open>layersTotal\<close> is the number of descriptors of the whole list that carry this
  same pointer; both are 32-bit numbers, and exact when the list has fewer than
  \<open>2 ^ 31\<close> descriptors. With no filter every descriptor is emitted, in manifest
  order, with that index. Within a run of consecutive descriptors with one
  pointer that starts at position \<open>i\<close>, descriptor \<open>j\<close> has index \<open>j - i\<close>: the
  indices of a run are contiguous and start at zero. Platforms are told apart by
  pointer, not by the platform value pointed to.
\<close>

theorem running_layer_index:
  assumes "alldescs = [] \<or> Platform (hd alldescs) \<noteq> None"
  shows "(0 < k \<and> k \<le> length alldescs \<and>
          filterLoop E alldescs ls pl selector0 (take k alldescs) = Inr s \<longrightarrow>
            curplat s = Platform (alldescs ! (k - 1)) \<and>
            layerIndex s = of_nat (runIndex alldescs (k - 1)) \<and>
            layersTotal s =
              of_nat (length (filter (\<lambda>d. Platform d = Platform (alldescs ! (k - 1))) alldescs)) \<and>
            (length alldescs < 2 ^ 31 \<longrightarrow>
               sint (layerIndex s) = int (runIndex alldescs (k - 1)) \<and>
               sint (layersTotal s) =
                 int (length (filter (\<lambda>d. Platform d = Platform (alldescs ! (k - 1))) alldescs)))) \<and>
         filterLayerDescriptors E alldescs [] [] =
           Inr (map (\<lambda>j. \<lparr>Index = of_nat (runIndex alldescs j), LayerInfo.Descriptor = alldescs ! j\<rparr>)
                  [0..<length alldescs], alldescs) \<and>
         (i \<le> j \<and> (i = 0 \<or> Platform (alldescs ! i) \<noteq> Platform (alldescs ! (i - 1))) \<and>
          (\<forall>m. i < m \<and> m \<le> j \<longrightarrow> Platform (alldescs ! m) = Platform (alldescs ! (m - 1))) \<longrightarrow>
            runIndex alldescs j = j - i)"
proof (intro conjI impI)
  assume h: "0 < k \<and> k \<le> length alldescs \<and>
          filterLoop E alldescs ls pl selector0 (take k alldescs) = Inr s"
  then have "alldescs \<noteq> []" by auto
  with assms have first: "Platform (hd alldescs) \<noteq> None" by simp
  from h have c: "curplat s = Platform (alldescs ! (k - 1)) \<and>
         layerIndex s = of_nat (runIndex alldescs (k - 1)) \<and>
         layersTotal s =
           of_nat (length (filter (\<lambda>d. Platform d = Platform (alldescs ! (k - 1))) alldescs))"
    using cursor_after [OF first, of k E ls pl s] by blast
  from c show "curplat s = Platform (alldescs ! (k - 1))" by simp
  from c show "layerIndex s = of_nat (runIndex alldescs (k - 1))" by simp
  from c show "layersTotal s =
      of_nat (length (filter (\<lambda>d. Platform d = Platform (alldescs ! (k - 1))) alldescs))" by simp
  assume small: "length alldescs < 2 ^ 31"
  have "runIndex alldescs (k - 1) \<le> k - 1" by (rule runIndex_le)
  with h small have "runIndex alldescs (k - 1) < 2 ^ 31" by linarith
  with c show "sint (layerIndex s) = int (runIndex alldescs (k - 1))"
    by (simp add: sint_of_nat_small)
  have "length (filter (\<lambda>d. Platform d = Platform (alldescs ! (k - 1))) alldescs) \<le> length alldescs"
    by (rule length_filter_le)
  with small have
    "length (filter (\<lambda>d. Platform d = Platform (alldescs ! (k - 1))) alldescs) < 2 ^ 31"
    by linarith
  with c show "sint (layersTotal s) =
      int (length (filter (\<lambda>d. Platform d = Platform (alldescs ! (k - 1))) alldescs))"
    by (simp add: sint_of_nat_small)
next
  show "filterLayerDescriptors E alldescs [] [] =
      Inr (map (\<lambda>j. \<lparr>Index = of_nat (runIndex alldescs j), LayerInfo.Descriptor = alldescs ! j\<rparr>)
             [0..<length alldescs], alldescs)"
  proof (cases "alldescs = []")
    case True
    then show ?thesis by (simp add: filterLayerDescriptors_def selector0_def)
  next
    case False
    with assms have "Platform (hd alldescs) \<noteq> None" by simp
    then show ?thesis by (rule select_all)
  qed
next
  assume "i \<le> j \<and> (i = 0 \<or> Platform (alldescs ! i) \<noteq> Platform (alldescs ! (i - 1))) \<and>
          (\<forall>m. i < m \<and> m \<le> j \<longrightarrow> Platform (alldescs ! m) = Platform (alldescs ! (m - 1)))"
  then show "runIndex alldescs j = j - i"
    using runIndex_in_run [of i j alldescs] by blast
qed


theorem running_layer_index_witness:
  "Platform (hd sample_layers) \<noteq> None \<and>
   filterLoop (layerEnv sample_client) sample_layers [- 1] [] selector0 (take 2 sample_layers) =
     Inr \<lparr>layerInfos = [\<lparr>Index = 1, LayerInfo.Descriptor = sample_layer ''sha256:02'' (Some 0)\<rparr>],
          descs = [sample_layer ''sha256:02'' (Some 0)],
          curplat = Some 0, layerIndex = 1, layersTotal = 2\<rparr> \<and>
   (1 :: int32) = of_nat (runIndex sample_layers (2 - 1)) \<and>
   sint (1 :: int32) = int (runIndex sample_layers (2 - 1)) \<and>
   sint (2 :: int32) =
     int (length (filter (\<lambda>d. Platform d = Platform (sample_layers ! (2 - 1))) sample_layers)) \<and>
   runIndex sample_layers 1 = 1 - 0 \<and>
   filterLayerDescriptors (layerEnv sample_client) sample_layers [] [] =
     Inr ([\<lparr>Index = 0, LayerInfo.Descriptor = sample_layer ''sha256:01'' (Some 0)\<rparr>,
           \<lparr>Index = 1, LayerInfo.Descriptor = sample_layer ''sha256:02'' (Some 0)\<rparr>,
           \<lparr>Index = 0, LayerInfo.Descriptor = sample_layer ''sha256:03'' (Some 1)\<rparr>],
          sample_layers)"
proof -
  let ?s = "\<lparr>layerInfos = [\<lparr>Index = 1, LayerInfo.Descriptor = sample_layer ''sha256:02'' (Some 0)\<rparr>],
          descs = [sample_layer ''sha256:02'' (Some 0)],
          curplat = Some 0, layerIndex = 1 :: int32, layersTotal = 2 :: int32\<rparr>"
  have h: "Platform (hd sample_layers) \<noteq> None"
    by (simp add: sample_layers_def sample_layer_def)
  then have h': "sample_layers = [] \<or> Platform (hd sample_layers) \<noteq> None" by simp
  have run: "filterLoop (layerEnv sample_client) sample_layers [- 1] [] selector0
               (take 2 sample_layers) = Inr ?s"
    by (simp add: sample_layers_def sample_layer_def selector0_def advance_def countLayers_def
        isUserSelectedLayer_def isUserSelectedPlatform_def)
  have pre: "0 < (2 :: nat) \<and> 2 \<le> length sample_layers \<and>
      filterLoop (layerEnv sample_client) sample_layers [- 1] [] selector0
        (take 2 sample_layers) = Inr ?s"
    using run by (simp add: sample_layers_def)
  have small: "length sample_layers < 2 ^ 31"
    by (simp add: sample_layers_def)
  have in_run: "(0 :: nat) \<le> 1 \<and>
      ((0 :: nat) = 0 \<or> Platform (sample_layers ! 0) \<noteq> Platform (sample_layers ! (0 - 1))) \<and>
      (\<forall>m. 0 < m \<and> m \<le> 1 \<longrightarrow> Platform (sample_layers ! m) = Platform (sample_layers ! (m - 1)))"
  proof (intro conjI allI impI)
    fix m :: nat assume "0 < m \<and> m \<le> 1"
    then have "m = 1" by simp
    then show "Platform (sample_layers ! m) = Platform (sample_layers ! (m - 1))"
      by (simp add: sample_layers_def sample_layer_def)
  qed simp_all
  have r0: "runIndex sample_layers 0 = 0" by simp
  have r1: "runIndex sample_layers 1 = 1"
    by (simp add: sample_layers_def sample_layer_def)
  have r2: "runIndex sample_layers 2 = 0"
    by (simp add: sample_layers_def sample_layer_def numeral_2_eq_2)
  have e0: "sample_layers ! 0 = sample_layer ''sha256:01'' (Some 0)"
    by (simp add: sample_layers_def)
  have e1: "sample_layers ! 1 = sample_layer ''sha256:02'' (Some 0)"
    by (simp add: sample_layers_def)
  have e2: "sample_layers ! 2 = sample_layer ''sha256:03'' (Some 1)"
    by (simp add: sample_layers_def)
  have up: "[0..<length sample_layers] = [0, 1, 2]"
    by (simp add: sample_layers_def upt_rec)
  note t = running_layer_index [OF h', of 2 "layerEnv sample_client" "[- 1]" "[]" ?s 0 1]
  from t pre have idx: "layerIndex ?s = of_nat (runIndex sample_layers (2 - 1))" by blast
  from t pre small have sidx: "sint (layerIndex ?s) = int (runIndex sample_layers (2 - 1))"
    by blast
  from t pre small have stot: "sint (layersTotal ?s) =
      int (length (filter (\<lambda>d. Platform d = Platform (sample_layers ! (2 - 1))) sample_layers))"
    by blast
  from t in_run have pos: "runIndex sample_layers 1 = 1 - 0" by blast
  from t have "filterLayerDescriptors (layerEnv sample_client) sample_layers [] [] =
      Inr (map (\<lambda>j. \<lparr>Index = of_nat (runIndex sample_layers j),
                      LayerInfo.Descriptor = sample_layers ! j\<rparr>)
             [0..<length sample_layers], sample_layers)"
    by blast
  then have all: "filterLayerDescriptors (layerEnv sample_client) sample_layers [] [] =
     Inr ([\<lparr>Index = 0, LayerInfo.Descriptor = sample_layer ''sha256:01'' (Some 0)\<rparr>,
           \<lparr>Index = 1, LayerInfo.Descriptor = sample_layer ''sha256:02'' (Some 0)\<rparr>,
           \<lparr>Index = 0, LayerInfo.Descriptor = sample_layer ''sha256:03'' (Some 1)\<rparr>],
          sample_layers)"
    using r1 e1 by (simp add: up r0 r2 e0 e2 del: runIndex.simps)
  have idx': "(1 :: int32) = of_nat (runIndex sample_layers (2 - 1))"
    using idx by (simp only: selector.simps)
  have sidx': "sint (1 :: int32) = int (runIndex sample_layers (2 - 1))"
    using sidx by (simp only: selector.simps)
  have stot': "sint (2 :: int32) =
      int (length (filter (\<lambda>d. Platform d = Platform (sample_layers ! (2 - 1))) sample_layers))"
    using stot by (simp only: selector.simps)
  from h run idx' sidx' stot' pos all show ?thesis by blast
qed

theorem layer_index_counterexample:
  "deref (layerEnv sample_client) 0 = deref (layerEnv sample_client) 1 \<and>
   filterLayerDescriptors (layerEnv sample_client)
     [sample_layer ''sha256:01'' (Some 0), sample_layer ''sha256:02'' (Some 1)] [] [] =
     Inr ([\<lparr>Index = 0, LayerInfo.Descriptor = sample_layer ''sha256:01'' (Some 0)\<rparr>,
           \<lparr>Index = 0, LayerInfo.Descriptor = sample_layer ''sha256:02'' (Some 1)\<rparr>],
          [sample_layer ''sha256:01'' (Some 0), sample_layer ''sha256:02'' (Some 1)]) \<and>
   countLayers [sample_layer ''sha256:01'' (Some 0), sample_layer ''sha256:02'' (Some 1)] (Some 1) = 1 \<and>
   filterLoop (layerEnv sample_client) [sample_layer ''sha256:01'' None] [] [] selector0
     [sample_layer ''sha256:01'' None] =
     Inr \<lparr>layerInfos = [\<lparr>Index = 1, LayerInfo.Descriptor = sample_layer ''sha256:01'' None\<rparr>],
          descs = [sample_layer ''sha256:01'' None],
          curplat = None, layerIndex = 1, layersTotal = 0\<rparr>"
  by (simp add: sample_client_def sample_layer_def filterLayerDescriptors_def selector0_def
      advance_def countLayers_def isUserSelectedLayer_def isUserSelectedPlatform_def)

text \<open>
  A list whose first descriptor carries no platform: the cursor starts at nil, so
  the first descriptor does not move it, and the only layer is emitted with index
  1.
\<close>

lemma first_index_without_platform:
  "filterLayerDescriptors E [sample_layer d None] [] [] =
     Inr ([\<lparr>Index = 1, LayerInfo.Descriptor = sample_layer d None\<rparr>], [sample_layer d None])"
  by (simp add: filterLayerDescriptors_def selector0_def advance_def isUserSelectedLayer_def
      isUserSelectedPlatform_def sample_layer_def)

section \<open>Properties of the classifier\<close>

subsection \<open>Recipients\<close>

lemma recipientsLoop_append:
  "recipientsLoop E acc (xs @ ys) =
     (case recipientsLoop E acc xs of Inl e \<Rightarrow> Inl e | Inr acc' \<Rightarrow> recipientsLoop E acc' ys)"
  by (induction E acc xs rule: recipientsLoop.induct) (auto split: sum.splits)

lemma recipientsLoop_buckets:
  "recipientsLoop E (g0, p0, x0) rs = Inr (g, p, x) \<Longrightarrow>
     g = g0 @ map recipientValue (filter (\<lambda>r. recipientProtocol r = ''pgp'') rs) \<and>
     map Inr p = map Inr p0 @
       map (\<lambda>r. ReadFile E (recipientValue r)) (filter (\<lambda>r. recipientProtocol r = ''jwe'') rs) \<and>
     map Inr x = map Inr x0 @
       map (\<lambda>r. ReadFile E (recipientValue r)) (filter (\<lambda>r. recipientProtocol r = ''pkcs7'') rs)"
proof (induction rs arbitrary: g0 p0 x0)
  case Nil
  then show ?case by simp
next
  case (Cons a rs)
  from Cons.prems show ?case
    by (auto split: if_splits sum.splits dest!: Cons.IH)
qed

lemma recipientsLoop_count:
  "recipientsLoop E (g0, p0, x0) rs = Inr (g, p, x) \<Longrightarrow>
     length g + length p + length x = length g0 + length p0 + length x0 + length rs"
  by (induction rs arbitrary: g0 p0 x0) (auto split: if_splits sum.splits)

lemma recipientsLoop_content:
  "recipientsLoop E (g0, p0, x0) rs = Inr (g, p, x) \<Longrightarrow>
     list_all (IsPublicKey E) p0 \<Longrightarrow> list_all (IsCertificate E) x0 \<Longrightarrow>
     list_all (IsPublicKey E) p \<and> list_all (IsCertificate E) x"
  by (induction rs arbitrary: g0 p0 x0) (auto split: if_splits sum.splits)

lemma recipientsLoop_format:
  "recipientsLoop E (g0, p0, x0) rs = Inr (g, p, x) \<Longrightarrow> r \<in> set rs \<Longrightarrow>
     0 \<le> stringsIndex r CHR '':'' \<and> recipientProtocol r \<in> {''pgp'', ''jwe'', ''pkcs7''}"
  by (induction rs arbitrary: g0 p0 x0) (auto split: if_splits sum.splits)

text \<open>
  Claim C6. When \<open>processRecipientKeys\<close> succeeds, every recipient string has a
  colon and one of the three protocols before it, and went to the one bucket of
  its protocol: the PGP bucket holds the values of the \<open>pgp\<close> strings, the
  public-key bucket the contents of the files of the \<open>jwe\<close> strings, all of them
  public keys, and the certificate bucket the contents of the files of the
  \<open>pkcs7\<close> strings, all of them certificates, each in the order of the input; so
  the three buckets together have as many entries as there are strings. When the
  strings before \<open>r\<close> are classified without an error, then \<open>r\<close> without a colon
  gives the format error, \<open>r\<close> with another protocol gives the protocol error,
  and a \<open>jwe\<close> or \<open>pkcs7\<close> string whose file is not a public key, or not a
  certificate, gives the content error of its protocol.
\<close>

theorem recipients_classified:
  "(processRecipientKeys E rs = Inr (g, p, x) \<longrightarrow>
      g = map recipientValue (filter (\<lambda>r. recipientProtocol r = ''pgp'') rs) \<and>
      map Inr p =
        map (\<lambda>r. ReadFile E (recipientValue r)) (filter (\<lambda>r. recipientProtocol r = ''jwe'') rs) \<and>
      map Inr x =
        map (\<lambda>r. ReadFile E (recipientValue r)) (filter (\<lambda>r. recipientProtocol r = ''pkcs7'') rs) \<and>
      length g + length p + length x = length rs \<and>
      list_all (IsPublicKey E) p \<and> list_all (IsCertificate E) x \<and>
      (\<forall>r \<in> set rs. 0 \<le> stringsIndex r CHR '':'' \<and>
                     recipientProtocol r \<in> {''pgp'', ''jwe'', ''pkcs7''})) \<and>
   (processRecipientKeys E pre = Inr acc \<longrightarrow>
      (stringsIndex r CHR '':'' < 0 \<longrightarrow>
         processRecipientKeys E (pre @ r # post) = Inl (New ''Invalid recipient format'')) \<and>
      (0 \<le> stringsIndex r CHR '':'' \<and> recipientProtocol r \<notin> {''pgp'', ''jwe'', ''pkcs7''} \<longrightarrow>
         processRecipientKeys E (pre @ r # post) = Inl (New ''Provided protocol not recognized'')) \<and>
      (0 \<le> stringsIndex r CHR '':'' \<and> recipientProtocol r = ''jwe'' \<and>
       ReadFile E (recipientValue r) = Inr tmp \<and> \<not> IsPublicKey E tmp \<longrightarrow>
         processRecipientKeys E (pre @ r # post) = Inl (New ''File provided is not a public key'')) \<and>
      (0 \<le> stringsIndex r CHR '':'' \<and> recipientProtocol r = ''pkcs7'' \<and>
       ReadFile E (recipientValue r) = Inr tmp \<and> \<not> IsCertificate E tmp \<longrightarrow>
         processRecipientKeys E (pre @ r # post) = Inl (New ''File provided is not an x509 cert'')))"
proof (intro conjI impI)
  assume ok: "processRecipientKeys E rs = Inr (g, p, x)"
  then have loop: "recipientsLoop E ([], [], []) rs = Inr (g, p, x)"
    by (simp add: processRecipientKeys_def)
  from recipientsLoop_buckets [OF loop]
  show "g = map recipientValue (filter (\<lambda>r. recipientProtocol r = ''pgp'') rs)"
    and "map Inr p =
        map (\<lambda>r. ReadFile E (recipientValue r)) (filter (\<lambda>r. recipientProtocol r = ''jwe'') rs)"
    and "map Inr x =
        map (\<lambda>r. ReadFile E (recipientValue r)) (filter (\<lambda>r. recipientProtocol r = ''pkcs7'') rs)"
    by simp_all
  from recipientsLoop_count [OF loop]
  show "length g + length p + length x = length rs" by simp
  from recipientsLoop_content [OF loop]
  show "list_all (IsPublicKey E) p" and "list_all (IsCertificate E) x" by simp_all
  show "\<forall>r \<in> set rs. 0 \<le> stringsIndex r CHR '':'' \<and>
                     recipientProtocol r \<in> {''pgp'', ''jwe'', ''pkcs7''}"
    using recipientsLoop_format [OF loop] by blast
next
  assume pre: "processRecipientKeys E pre = Inr acc"
  obtain a b c where acc: "acc = (a, b, c)" by (cases acc)
  have step: "processRecipientKeys E (pre @ r # post) = recipientsLoop E (a, b, c) (r # post)"
    using pre by (simp add: processRecipientKeys_def recipientsLoop_append acc)
  {
    assume "stringsIndex r CHR '':'' < 0"
    then show "processRecipientKeys E (pre @ r # post) = Inl (New ''Invalid recipient format'')"
      by (simp add: step)
  next
    assume "0 \<le> stringsIndex r CHR '':'' \<and> recipientProtocol r \<notin> {''pgp'', ''jwe'', ''pkcs7''}"
    then show "processRecipientKeys E (pre @ r # post) = Inl (New ''Provided protocol not recognized'')"
      by (simp add: step)
  next
    assume "0 \<le> stringsIndex r CHR '':'' \<and> recipientProtocol r = ''jwe'' \<and>
       ReadFile E (recipientValue r) = Inr tmp \<and> \<not> IsPublicKey E tmp"
    then show "processRecipientKeys E (pre @ r # post) = Inl (New ''File provided is not a public key'')"
      by (simp add: step)
  next
    assume "0 \<le> stringsIndex r CHR '':'' \<and> recipientProtocol r = ''pkcs7'' \<and>
       ReadFile E (recipientValue r) = Inr tmp \<and> \<not> IsCertificate E tmp"
    then show "processRecipientKeys E (pre @ r # post) = Inl (New ''File provided is not an x509 cert'')"
      by (simp add: step)
  }
qed

lemma sample_recipients:
  "processRecipientKeys sample_keys [''pgp:alice@example.org'', ''jwe:pub'', ''pkcs7:cert''] =
     Inr ([''alice@example.org''], [''PUBLIC''], [''CERT''])"
  by (simp add: processRecipientKeys_def recipientProtocol_def recipientValue_def sample_keys_def)

lemma sample_recipient_facts:
  "stringsIndex ''alice'' CHR '':'' < 0"
  "0 \<le> stringsIndex ''ssh:pub'' CHR '':'' \<and> recipientProtocol ''ssh:pub'' \<notin> {''pgp'', ''jwe'', ''pkcs7''}"
  "0 \<le> stringsIndex ''jwe:cert'' CHR '':'' \<and> recipientProtocol ''jwe:cert'' = ''jwe'' \<and>
   ReadFile sample_keys (recipientValue ''jwe:cert'') = Inr ''CERT'' \<and> \<not> IsPublicKey sample_keys ''CERT''"
  "0 \<le> stringsIndex ''pkcs7:pub'' CHR '':'' \<and> recipientProtocol ''pkcs7:pub'' = ''pkcs7'' \<and>
   ReadFile sample_keys (recipientValue ''pkcs7:pub'') = Inr ''PUBLIC'' \<and>
   \<not> IsCertificate sample_keys ''PUBLIC''"
  by (simp_all add: recipientProtocol_def recipientValue_def sample_keys_def)

theorem recipients_classified_witness:
  "processRecipientKeys sample_keys [''pgp:alice@example.org'', ''jwe:pub'', ''pkcs7:cert''] =
     Inr ([''alice@example.org''], [''PUBLIC''], [''CERT'']) \<and>
   length [''alice@example.org''] + length [''PUBLIC''] + length [''CERT''] =
     length [''pgp:alice@example.org'', ''jwe:pub'', ''pkcs7:cert''] \<and>
   processRecipientKeys sample_keys
     ([''pgp:alice@example.org'', ''jwe:pub'', ''pkcs7:cert''] @ ''alice'' # [''jwe:pub'']) =
     Inl (New ''Invalid recipient format'') \<and>
   processRecipientKeys sample_keys
     ([''pgp:alice@example.org'', ''jwe:pub'', ''pkcs7:cert''] @ ''ssh:pub'' # []) =
     Inl (New ''Provided protocol not recognized'') \<and>
   processRecipientKeys sample_keys
     ([''pgp:alice@example.org'', ''jwe:pub'', ''pkcs7:cert''] @ ''jwe:cert'' # []) =
     Inl (New ''File provided is not a public key'') \<and>
   processRecipientKeys sample_keys
     ([''pgp:alice@example.org'', ''jwe:pub'', ''pkcs7:cert''] @ ''pkcs7:pub'' # []) =
     Inl (New ''File provided is not an x509 cert'')"
proof -
  let ?rs = "[''pgp:alice@example.org'', ''jwe:pub'', ''pkcs7:cert'']"
  note ok = sample_recipients
  have "length [''alice@example.org''] + length [''PUBLIC''] + length [''CERT''] = length ?rs"
    using recipients_classified [of sample_keys ?rs "[''alice@example.org'']" "[''PUBLIC'']"
        "[''CERT'']" ?rs _ "''alice''" "[]" "[]"] ok
    by blast
  moreover have "processRecipientKeys sample_keys (?rs @ ''alice'' # [''jwe:pub'']) =
      Inl (New ''Invalid recipient format'')"
    using recipients_classified [of sample_keys ?rs "[''alice@example.org'']" "[''PUBLIC'']"
        "[''CERT'']" ?rs _ "''alice''" "[''jwe:pub'']" "[]"] ok sample_recipient_facts(1)
    by blast
  moreover have "processRecipientKeys sample_keys (?rs @ ''ssh:pub'' # []) =
      Inl (New ''Provided protocol not recognized'')"
    using recipients_classified [of sample_keys ?rs "[''alice@example.org'']" "[''PUBLIC'']"
        "[''CERT'']" ?rs _ "''ssh:pub''" "[]" "[]"] ok sample_recipient_facts(2)
    by blast
  moreover have "processRecipientKeys sample_keys (?rs @ ''jwe:cert'' # []) =
      Inl (New ''File provided is not a public key'')"
    using recipients_classified [of sample_keys ?rs "[''alice@example.org'']" "[''PUBLIC'']"
        "[''CERT'']" ?rs _ "''jwe:cert''" "[]" "''CERT''"] ok sample_recipient_facts(3)
    by blast
  moreover have "processRecipientKeys sample_keys (?rs @ ''pkcs7:pub'' # []) =
      Inl (New ''File provided is not an x509 cert'')"
    using recipients_classified [of sample_keys ?rs "[''alice@example.org'']" "[''PUBLIC'']"
        "[''CERT'']" ?rs _ "''pkcs7:pub''" "[]" "''PUBLIC''"] ok sample_recipient_facts(4)
    by blast
  ultimately show ?thesis using ok by blast
qed

subsection \<open>Private keys and passwords\<close>

lemma hd_split:
  "stringsSplit s c \<noteq> [] \<and> hd (stringsSplit s c) = takeWhile (\<lambda>x. x \<noteq> c) s"
  by (induction s) (auto split: list.splits)

lemma split_nth0: "stringsSplit s c ! 0 = takeWhile (\<lambda>x. x \<noteq> c) s"
  using hd_split [of s c] by (cases "stringsSplit s c") auto

lemma length_split: "length (stringsSplit s c) = Suc (count_list s c)"
  by (induction s) (auto split: list.splits)

lemma split_no_sep: "count_list s c = 0 \<Longrightarrow> stringsSplit s c = [s]"
  by (induction s) (auto split: list.splits if_splits)

lemma split_second:
  "count_list s c = Suc 0 \<Longrightarrow> stringsSplit s c ! Suc 0 = tl (dropWhile (\<lambda>x. x \<noteq> c) s)"
proof (induction s)
  case Nil
  then show ?case by simp
next
  case (Cons x xs)
  show ?case
  proof (cases "x = c")
    case True
    with Cons.prems have "count_list xs c = 0" by simp
    then show ?thesis using True by (simp add: split_no_sep)
  next
    case False
    with Cons.prems have "count_list xs c = Suc 0" by simp
    then have ih: "stringsSplit xs c ! Suc 0 = tl (dropWhile (\<lambda>x. x \<noteq> c) xs)"
      by (rule Cons.IH)
    obtain p ps where sp: "stringsSplit xs c = p # ps"
      using hd_split [of xs c] by (cases "stringsSplit xs c") auto
    show ?thesis using False ih sp by simp
  qed
qed

lemma keyfileAndPassword_first_colon:
  "keyfileAndPassword E s =
     (if count_list s CHR '':'' = 1
      then (case processPwdString E (tl (dropWhile (\<lambda>x. x \<noteq> CHR '':'') s)) of
              Inl err \<Rightarrow> Inl err
            | Inr password \<Rightarrow> Inr (takeWhile (\<lambda>x. x \<noteq> CHR '':'') s, Some password))
      else Inr (takeWhile (\<lambda>x. x \<noteq> CHR '':'') s, None))"
  by (simp add: keyfileAndPassword_def Let_def length_split split_nth0 split_second
      split: sum.splits)

text \<open>
  Claim C4, at the specifier \<open>k:pass=s3:cret\<close>, which has the form
  \<open><filename>:pass=<password>\<close> of the comment on \<open>processPrivateKeyFiles\<close>: the
  file is \<open>k\<close> and the password is \<open>s3:cret\<close>. The claim asks that the text
  after the first colon, \<open>pass=s3:cret\<close>, be resolved, which gives that password
  in any surroundings. The code splits the specifier at both colons into three
  parts and, the parts not being two, resolves nothing: whatever the
  surroundings, the file name is \<open>k\<close>, the password is the nil slice and no
  error is returned. In \<open>sample_keys\<close>, where \<open>s3:cret\<close> opens the key in \<open>k\<close>,
  the call then fails with the error of a missing password. The same happens for
  the form \<open><filename>:<password>\<close>. \<open>processRecipientKeys\<close> takes the text after
  the first colon of a recipient, further colons included.
\<close>

theorem password_after_first_colon_dropped:
  "stringsSplit ''k:pass=s3:cret'' CHR '':'' = [''k'', ''pass=s3'', ''cret''] \<and>
   keyfileAndPassword E ''k:pass=s3:cret'' = Inr (''k'', None) \<and>
   keyfileAndPassword E ''k:s3:cret'' = Inr (''k'', None) \<and>
   processPwdString E (tl (dropWhile (\<lambda>x. x \<noteq> CHR '':'') ''k:pass=s3:cret'')) = Inr ''s3:cret'' \<and>
   IsPrivateKey sample_keys ''KEY1'' (Some ''s3:cret'') = (True, None) \<and>
   processPrivateKeyFiles sample_keys [''k:pass=s3:cret''] = Inl (Lib ''missing password'') \<and>
   processPrivateKeyFiles sample_keys [''k:s3:cret''] = Inl (Lib ''missing password'') \<and>
   processPrivateKeyFiles sample_keys [''k2:pass=hunter2''] =
     Inr ([], [], [''KEY2''], [Some ''hunter2'']) \<and>
   recipientValue ''pgp:pass=s3:cret'' = ''pass=s3:cret''"
proof -
  have split: "stringsSplit ''k:pass=s3:cret'' CHR '':'' = [''k'', ''pass=s3'', ''cret'']"
    by simp
  have nil: "keyfileAndPassword E ''k:pass=s3:cret'' = Inr (''k'', None)"
    by (simp add: keyfileAndPassword_def)
  have bare: "keyfileAndPassword E ''k:s3:cret'' = Inr (''k'', None)"
    by (simp add: keyfileAndPassword_def)
  have asked: "processPwdString E (tl (dropWhile (\<lambda>x. x \<noteq> CHR '':'') ''k:pass=s3:cret'')) =
      Inr ''s3:cret''"
    by (simp add: processPwdString_def stringsHasPrefix_def)
  have opens: "IsPrivateKey sample_keys ''KEY1'' (Some ''s3:cret'') = (True, None)"
    by (simp add: sample_keys_def)
  have fails: "processPrivateKeyFiles sample_keys [''k:pass=s3:cret''] =
      Inl (Lib ''missing password'')"
    by (simp add: processPrivateKeyFiles_def keyfileAndPassword_def sample_keys_def)
  have fails': "processPrivateKeyFiles sample_keys [''k:s3:cret''] =
      Inl (Lib ''missing password'')"
    by (simp add: processPrivateKeyFiles_def keyfileAndPassword_def sample_keys_def)
  have one: "processPrivateKeyFiles sample_keys [''k2:pass=hunter2''] =
      Inr ([], [], [''KEY2''], [Some ''hunter2''])"
    by (simp add: processPrivateKeyFiles_def keyfileAndPassword_def processPwdString_def
        stringsHasPrefix_def sample_keys_def)
  have sibling: "recipientValue ''pgp:pass=s3:cret'' = ''pass=s3:cret''"
    by (simp add: recipientValue_def)
  from split nil bare asked opens fails fails' one sibling show ?thesis by blast
qed

text \<open>
  A password that is given and empty is not the nil password: the specifier
  \<open>k2:\<close> hands \<open>IsPrivateKey\<close> the empty password, the specifier \<open>k2\<close> the nil
  one.
\<close>

lemma empty_password_is_not_nil:
  "keyfileAndPassword E ''k2:'' = Inr (''k2'', Some []) \<and>
   keyfileAndPassword E ''k2:pass='' = Inr (''k2'', Some []) \<and>
   keyfileAndPassword E ''k2'' = Inr (''k2'', None) \<and>
   processPrivateKeyFiles sample_keys [''k2:''] = Inl (Lib ''wrong password'') \<and>
   processPrivateKeyFiles sample_keys [''k2''] = Inl (Lib ''missing password'')"
  by (simp add: processPrivateKeyFiles_def keyfileAndPassword_def processPwdString_def
      stringsHasPrefix_def sample_keys_def)

lemma processPwdString_ring [simp]:
  "processPwdString (E\<lparr>IsGPGPrivateKeyRing := ring\<rparr>) s = processPwdString E s"
  by (simp add: processPwdString_def Let_def split: sum.splits option.splits prod.splits)

lemma keyfileAndPassword_ring [simp]:
  "keyfileAndPassword (E\<lparr>IsGPGPrivateKeyRing := ring\<rparr>) s = keyfileAndPassword E s"
  by (simp add: keyfileAndPassword_def Let_def split: sum.splits)

lemma privateKeysLoop_append:
  assumes "\<not> IsPasswordError E None"
  shows "privateKeysLoop E acc (xs @ ys) =
     (case privateKeysLoop E acc xs of Inl e \<Rightarrow> Inl e | Inr acc' \<Rightarrow> privateKeysLoop E acc' ys)"
  using assms
  by (induction E acc xs rule: privateKeysLoop.induct)
     (auto split: sum.splits prod.splits option.splits)

text \<open>
  Claim C5. The loop reaches a specifier \<open>s\<close> with any buckets filled so far; its
  file is read, and \<open>IsPrivateKey\<close> returns an error that \<open>IsPasswordError\<close>
  recognises. Then the call returns exactly that error, whatever the flag
  \<open>IsPrivateKey\<close> gave, whatever specifiers follow, and whatever the keyring test
  would answer: the result is the same for every keyring test, so the keyring
  test has no part in it, and the error of an unidentified key is not built. In
  particular this is the result of \<open>processPrivateKeyFiles\<close> when \<open>s\<close> comes
  first, and when it comes after specifiers that were classified (in surroundings
  in which nil is no password error).
\<close>

theorem password_error_returned_at_once:
  assumes "keyfileAndPassword E s = Inr (keyfile, password)"
    and "ReadFile E keyfile = Inr tmp"
    and "IsPrivateKey E tmp password = (isPrivKey, Some e)"
    and "IsPasswordError E (Some e)"
  shows "privateKeysLoop E acc (s # rest) = Inl e \<and>
         processPrivateKeyFiles E (s # rest) = Inl e \<and>
         (\<forall>ring. privateKeysLoop (E\<lparr>IsGPGPrivateKeyRing := ring\<rparr>) acc (s # rest) = Inl e) \<and>
         (\<not> IsPasswordError E None \<and> processPrivateKeyFiles E pre = Inr acc \<longrightarrow>
            processPrivateKeyFiles E (pre @ s # rest) = Inl e)"
proof -
  obtain a b c d where acc: "acc = (a, b, c, d)" by (cases acc)
  have here: "privateKeysLoop E acc (s # rest) = Inl e"
    using assms by (simp add: acc)
  have first: "processPrivateKeyFiles E (s # rest) = Inl e"
    using assms by (simp add: processPrivateKeyFiles_def)
  have ring: "\<forall>ring. privateKeysLoop (E\<lparr>IsGPGPrivateKeyRing := ring\<rparr>) acc (s # rest) = Inl e"
    using assms by (simp add: acc)
  have later: "processPrivateKeyFiles E (pre @ s # rest) = Inl e"
    if "\<not> IsPasswordError E None \<and> processPrivateKeyFiles E pre = Inr acc"
    using that here by (simp add: processPrivateKeyFiles_def privateKeysLoop_append)
  from here first ring later show ?thesis by blast
qed

theorem password_error_returned_at_once_witness:
  "keyfileAndPassword sample_keys ''k2:pass=wrong'' = Inr (''k2'', Some ''wrong'') \<and>
   ReadFile sample_keys ''k2'' = Inr ''KEY2'' \<and>
   IsPrivateKey sample_keys ''KEY2'' (Some ''wrong'') = (False, Some (Lib ''wrong password'')) \<and>
   IsPasswordError sample_keys (Some (Lib ''wrong password'')) \<and>
   \<not> IsPasswordError sample_keys None \<and>
   processPrivateKeyFiles sample_keys [''ring''] = Inr ([''RING''], [None], [], []) \<and>
   processPrivateKeyFiles sample_keys [''k2:pass=wrong'', ''ring''] = Inl (Lib ''wrong password'') \<and>
   privateKeysLoop sample_keys ([''RING''], [None], [], []) [''k2:pass=wrong'', ''ring''] =
     Inl (Lib ''wrong password'') \<and>
   processPrivateKeyFiles sample_keys ([''ring''] @ ''k2:pass=wrong'' # [''ring'']) =
     Inl (Lib ''wrong password'')"
proof -
  have h1: "keyfileAndPassword sample_keys ''k2:pass=wrong'' = Inr (''k2'', Some ''wrong'')"
    by (simp add: keyfileAndPassword_def processPwdString_def stringsHasPrefix_def)
  have h2: "ReadFile sample_keys ''k2'' = Inr ''KEY2''"
    by (simp add: sample_keys_def)
  have h3: "IsPrivateKey sample_keys ''KEY2'' (Some ''wrong'') =
      (False, Some (Lib ''wrong password''))"
    by (simp add: sample_keys_def)
  have h4: "IsPasswordError sample_keys (Some (Lib ''wrong password''))"
    by (simp add: sample_keys_def)
  have h5: "\<not> IsPasswordError sample_keys None"
    by (simp add: sample_keys_def)
  have h6: "processPrivateKeyFiles sample_keys [''ring''] = Inr ([''RING''], [None], [], [])"
    by (simp add: processPrivateKeyFiles_def keyfileAndPassword_def sample_keys_def)
  from password_error_returned_at_once
    [OF h1 h2 h3 h4, of "([''RING''], [None], [], [])" "[''ring'']" "[''ring'']"]
  show ?thesis using h1 h2 h3 h4 h5 h6 by blast
qed

text \<open>
  Claim C10. A password specifier that begins with none of \<open>file=\<close>, \<open>pass=\<close> and
  \<open>fd=\<close> is itself the password, and no error is returned.
\<close>

theorem bare_literal_password:
  assumes "\<not> stringsHasPrefix s ''file=''"
    and "\<not> stringsHasPrefix s ''pass=''"
    and "\<not> stringsHasPrefix s ''fd=''"
  shows "processPwdString E s = Inr s"
  using assms by (simp add: processPwdString_def)

theorem bare_literal_password_witness:
  "\<not> stringsHasPrefix ''pas=x'' ''file='' \<and> \<not> stringsHasPrefix ''pas=x'' ''pass='' \<and>
   \<not> stringsHasPrefix ''pas=x'' ''fd='' \<and> processPwdString sample_keys ''pas=x'' = Inr ''pas=x''"
proof -
  have h1: "\<not> stringsHasPrefix ''pas=x'' ''file=''" by (simp add: stringsHasPrefix_def)
  have h2: "\<not> stringsHasPrefix ''pas=x'' ''pass=''" by (simp add: stringsHasPrefix_def)
  have h3: "\<not> stringsHasPrefix ''pas=x'' ''fd=''" by (simp add: stringsHasPrefix_def)
  show ?thesis using h1 h2 h3 bare_literal_password [OF h1 h2 h3] by simp
qed

section \<open>Properties of the orchestrator\<close>

lemma release_unmodified:
  "release (Inr img, st\<lparr>Leases := Suc (Leases st)\<rparr>) = (Inr img, st)"
  by (simp add: release_def)

lemma createLayerFilter_Create [simp]:
  "createLayerFilter (E\<lparr>Create := create\<rparr>) target ls pl = createLayerFilter E target ls pl"
  by (simp add: createLayerFilter_def split: sum.splits)

text \<open>
  Claim C3. The platforms of the options parse, the layer filter is built and the
  lease is acquired, so that the per-layer transform is called. When the transform
  of \<open>EncryptImage\<close> returns without an error and with \<open>modified = false\<close>, the
  call returns the image it was given and no error, and the state is the one
  before the call: the image service has no new record and the lease is closed
  again. This holds whatever \<open>Create\<close> of the image service would do, so no
  record is registered. The same holds of \<open>DecryptImage\<close> and its transform.
\<close>

theorem unmodified_image_returned:
  assumes "parsePlatformArray (platformsParse E) (Platforms (applyOpts opts)) = Inr pl"
    and "createLayerFilter E (Target img) (Layers (applyOpts opts)) pl = Inr lf"
    and "WithLease E = None"
  shows "(imgencEncryptImage E (Target img) config lf = Inr (desc, False) \<longrightarrow>
            (\<forall>create. EncryptImage (E\<lparr>Create := create\<rparr>) st img name config opts = (Inr img, st))) \<and>
         (imgencDecryptImage E (Target img) config lf = Inr (desc, False) \<longrightarrow>
            (\<forall>create. DecryptImage (E\<lparr>Create := create\<rparr>) st img name config opts = (Inr img, st)))"
  using assms
  by (simp add: EncryptImage_def DecryptImage_def release_unmodified)

theorem unmodified_image_returned_witness:
  "EncryptImage sample_client \<lparr>ImageService = [], Leases = 0\<rparr> sample_image ''app-enc'' ''cfg''
     [WithLayers [- 1]] = (Inr sample_image, \<lparr>ImageService = [], Leases = 0\<rparr>) \<and>
   DecryptImage sample_client \<lparr>ImageService = [], Leases = 0\<rparr> sample_image ''app-dec'' ''cfg''
     [WithLayers [- 1]] = (Inr sample_image, \<lparr>ImageService = [], Leases = 0\<rparr>)"
proof -
  let ?lf = "\<lambda>d. digestLoop d [sample_layer ''sha256:02'' (Some 0)]"
  have opts: "applyOpts [WithLayers [- 1]] = \<lparr>Platforms = [], Layers = [- 1]\<rparr>"
    by (simp add: applyOpts_def WithLayers_def)
  have h1: "parsePlatformArray (platformsParse sample_client)
              (Platforms (applyOpts [WithLayers [- 1]])) = Inr []"
    by (simp add: opts parsePlatformArray_def)
  have h2: "createLayerFilter sample_client (Target sample_image)
              (Layers (applyOpts [WithLayers [- 1]])) [] = Inr ?lf"
    by (simp add: opts createLayerFilter_def sample_client_def filterLayerDescriptors_def
        selector0_def advance_def countLayers_def isUserSelectedLayer_def
        isUserSelectedPlatform_def sample_layer_def)
  have h3: "WithLease sample_client = None"
    by (simp add: sample_client_def)
  have e: "imgencEncryptImage sample_client (Target sample_image) ''cfg'' ?lf =
             Inr (Target sample_image, False)"
    by (simp add: sample_client_def)
  have d: "imgencDecryptImage sample_client (Target sample_image) ''cfg'' ?lf =
             Inr (Target sample_image, False)"
    by (simp add: sample_client_def)
  have same: "sample_client\<lparr>Create := Create sample_client\<rparr> = sample_client"
    by simp
  note t = unmodified_image_returned [OF h1 h2 h3, of "''cfg''" "Target sample_image"]
  from t e have "\<forall>create. EncryptImage (sample_client\<lparr>Create := create\<rparr>)
      \<lparr>ImageService = [], Leases = 0\<rparr> sample_image ''app-enc'' ''cfg'' [WithLayers [- 1]] =
      (Inr sample_image, \<lparr>ImageService = [], Leases = 0\<rparr>)" by blast
  then have enc: "EncryptImage (sample_client\<lparr>Create := Create sample_client\<rparr>)
      \<lparr>ImageService = [], Leases = 0\<rparr> sample_image ''app-enc'' ''cfg'' [WithLayers [- 1]] =
      (Inr sample_image, \<lparr>ImageService = [], Leases = 0\<rparr>)" by blast
  from t d have "\<forall>create. DecryptImage (sample_client\<lparr>Create := create\<rparr>)
      \<lparr>ImageService = [], Leases = 0\<rparr> sample_image ''app-dec'' ''cfg'' [WithLayers [- 1]] =
      (Inr sample_image, \<lparr>ImageService = [], Leases = 0\<rparr>)" by blast
  then have dec: "DecryptImage (sample_client\<lparr>Create := Create sample_client\<rparr>)
      \<lparr>ImageService = [], Leases = 0\<rparr> sample_image ''app-dec'' ''cfg'' [WithLayers [- 1]] =
      (Inr sample_image, \<lparr>ImageService = [], Leases = 0\<rparr>)" by blast
  from enc dec show ?thesis by (simp only: same)
qed

section \<open>Properties of the payload protocol\<close>

declare varint.simps [simp del] unframe.simps [simp del]

lemma unvarint_varint: "unvarint (varint n @ r) = Some (n, r)"
proof (induction n rule: varint.induct)
  case (1 n)
  show ?case
  proof (cases "n < 128")
    case True
    then show ?thesis by (subst varint.simps) simp
  next
    case False
    then show ?thesis using 1 by (subst varint.simps) simp
  qed
qed

lemma varint_nonempty: "varint n \<noteq> []"
  by (subst varint.simps) simp

lemma unframe_frame: "unframe (frame fs) = Some fs"
proof (induction fs)
  case Nil
  show ?case by (simp add: unframe.simps)
next
  case (Cons f fs)
  show ?case
    by (subst unframe.simps) (simp add: varint_nonempty unvarint_varint Cons)
qed

declare frame.simps [simp del]

lemma decInt_encInt: "decInt (encInt i) = Some i"
  using unvarint_varint [of "nat \<bar>i\<bar>" "[]"] by (simp add: decInt_def encInt_def)

lemma decPlatform_encPlatform: "decPlatform (encPlatform p) = Some p"
  by (simp add: decPlatform_def encPlatform_def unframe_frame)

lemma decDescriptor_encDescriptor:
  "decDescriptor place (encDescriptor mem d) =
     Some (d\<lparr>Platform := map_option (\<lambda>a. place) (Platform d)\<rparr>,
           (case Platform d of None \<Rightarrow> Map.empty | Some a \<Rightarrow> [place \<mapsto> mem a]))"
  by (cases "Platform d")
     (simp_all add: decDescriptor_def encDescriptor_def unframe_frame decInt_encInt
        decPlatform_encPlatform)

lemma decBackend_encBackend: "decBackend (encBackend b) = Some b"
  by (cases b) (simp_all add: decBackend_def encBackend_def unframe_frame)

lemma those_decBackend: "those (map (decBackend \<circ> encBackend) dc) = Some dc"
  by (induction dc) (simp_all add: decBackend_encBackend)

lemma decConfig_encConfig: "decConfig (encConfig dc) = Some dc"
  by (simp add: decConfig_def encConfig_def unframe_frame those_decBackend)

lemma decPayload_encPayload:
  "decPayload place (encPayload mem \<lparr>DecryptConfig = dc, Descriptor = d\<rparr>) =
     Some (\<lparr>DecryptConfig = dc,
            Descriptor = d\<lparr>Platform := map_option (\<lambda>a. place) (Platform d)\<rparr>\<rparr>,
           (case Platform d of None \<Rightarrow> Map.empty | Some a \<Rightarrow> [place \<mapsto> mem a]))"
  by (simp add: decPayload_def encPayload_def unframe_frame decConfig_encConfig
      decDescriptor_encDescriptor)

lemma decAny_encAny: "decAny (encAny a) = Some a"
  by (simp add: decAny_def encAny_def unframe_frame)

lemma sender_stores:
  assumes "MarshalAny E (Payload \<lparr>DecryptConfig = config, Descriptor = desc\<rparr>) = Inr a"
  shows "last (UnpackOpts (snd (WithDecryptedImageUnpack E config rc))) desc c =
     (None,
      c\<lparr>ProcessorPayloads :=
          Some ((case ProcessorPayloads c of None \<Rightarrow> Map.empty | Some m \<Rightarrow> m)
                  (''io.containerd.layertool.tar'' \<mapsto> a,
                   ''io.containerd.layertool.tar.gzip'' \<mapsto> a))\<rparr>)"
  using assms by (simp add: WithDecryptedImageUnpack_def payloadUnpackOpt_def)

lemma wire_receives:
  "UnmarshalLayerToolDecryptData (wireCodec mem place others otherAny) (encAny a) =
     (case UnmarshalAny (wireCodec mem place others otherAny) a of
        Inl err \<Rightarrow> Inl (Wrap err ''could not UnmarshalAny() the decrypt data'')
      | Inr (Payload p) \<Rightarrow> Inr p
      | Inr (Other x) \<Rightarrow>
          Inl (New (''received an unknown data type '' @ [CHR 0x27] @ TypeUrl a @ [CHR 0x27])))"
  by (simp add: UnmarshalLayerToolDecryptData_def wireCodec_def decAny_encAny)

text \<open>
  Claim C7. The sender is the unpack option that \<open>WithDecryptedImageUnpack\<close>
  appends for a decrypt configuration. For any codecs: called with a descriptor,
  it returns no error and stores, under both layer-tool keys, the envelope into
  which the payload of the two is marshalled; the receiver returns the payload
  that the bytes decode to; and when they decode to a value of another type, it
  returns the error whose message quotes the type tag of the envelope.
  For the codecs of the wire form: the sender returns no error and stores under
  both keys the envelope \<open>a\<close> with the fixed type identifier and the encoded
  payload; from the bytes of \<open>a\<close> the receiver returns a payload with the
  decrypt configuration of the sender and a descriptor with the same media type,
  digest and size, whose platform in the memory of the receiver is the platform
  of the sender's descriptor in the memory of the sender (none when that pointer
  is nil). The bytes of an envelope with any other type tag give an error, and
  when the tag is that of another registered type whose value decodes, the error
  quotes the tag.
\<close>

theorem payload_round_trip:
  "(MarshalAny E (Payload \<lparr>DecryptConfig = config, Descriptor = desc\<rparr>) = Inr a \<longrightarrow>
      last (UnpackOpts (snd (WithDecryptedImageUnpack E config rc))) desc c =
        (None,
         c\<lparr>ProcessorPayloads :=
             Some ((case ProcessorPayloads c of None \<Rightarrow> Map.empty | Some m \<Rightarrow> m)
                     (''io.containerd.layertool.tar'' \<mapsto> a,
                      ''io.containerd.layertool.tar.gzip'' \<mapsto> a))\<rparr>)) \<and>
   (protoUnmarshal E decryptData = Inr pb \<and> UnmarshalAny E pb = Inr (Payload p) \<longrightarrow>
      UnmarshalLayerToolDecryptData E decryptData = Inr p) \<and>
   (protoUnmarshal E decryptData' = Inr pb' \<and> UnmarshalAny E pb' = Inr (Other x) \<longrightarrow>
      UnmarshalLayerToolDecryptData E decryptData' =
        Inl (New (''received an unknown data type '' @ [CHR 0x27] @ TypeUrl pb' @ [CHR 0x27]))) \<and>
   (let W = wireCodec mem place others otherAny;
        a = \<lparr>TypeUrl = payloadTypeUrl,
             Value = encPayload mem \<lparr>DecryptConfig = dconfig, Descriptor = desc\<rparr>\<rparr>
    in last (UnpackOpts (snd (WithDecryptedImageUnpack W dconfig rc))) desc c =
         (None,
          c\<lparr>ProcessorPayloads :=
              Some ((case ProcessorPayloads c of None \<Rightarrow> Map.empty | Some m \<Rightarrow> m)
                      (''io.containerd.layertool.tar'' \<mapsto> a,
                       ''io.containerd.layertool.tar.gzip'' \<mapsto> a))\<rparr>) \<and>
       protoMarshal W a = Inr (encAny a) \<and>
       (\<exists>received store.
          UnmarshalLayerToolDecryptData W (encAny a) = Inr received \<and>
          decPayload place (Value a) = Some (received, store) \<and>
          DecryptConfig received = dconfig \<and>
          MediaType (ProcessorPayload.Descriptor received) = MediaType desc \<and>
          Digest (ProcessorPayload.Descriptor received) = Digest desc \<and>
          Size (ProcessorPayload.Descriptor received) = Size desc \<and>
          platformOf store (ProcessorPayload.Descriptor received) =
            map_option mem (Platform desc)) \<and>
       (TypeUrl b \<noteq> payloadTypeUrl \<longrightarrow>
          (\<exists>err. UnmarshalLayerToolDecryptData W (encAny b) = Inl err)) \<and>
       (TypeUrl b \<noteq> payloadTypeUrl \<and> others (TypeUrl b) = Some dec \<and> dec (Value b) = Some y \<longrightarrow>
          UnmarshalLayerToolDecryptData W (encAny b) =
            Inl (New (''received an unknown data type '' @ [CHR 0x27] @ TypeUrl b @ [CHR 0x27]))))"
proof -
  define W where "W = wireCodec mem place others otherAny"
  define a' where "a' = \<lparr>TypeUrl = payloadTypeUrl,
      Value = encPayload mem \<lparr>DecryptConfig = dconfig, Descriptor = desc\<rparr>\<rparr>"
  define received where "received = \<lparr>DecryptConfig = dconfig,
      Descriptor = desc\<lparr>Platform := map_option (\<lambda>a. place) (Platform desc)\<rparr>\<rparr>"
  define store where
    "store = (case Platform desc of None \<Rightarrow> Map.empty | Some a \<Rightarrow> [place \<mapsto> mem a])"
  have sender: "last (UnpackOpts (snd (WithDecryptedImageUnpack E config rc))) desc c =
        (None,
         c\<lparr>ProcessorPayloads :=
             Some ((case ProcessorPayloads c of None \<Rightarrow> Map.empty | Some m \<Rightarrow> m)
                     (''io.containerd.layertool.tar'' \<mapsto> a,
                      ''io.containerd.layertool.tar.gzip'' \<mapsto> a))\<rparr>)"
    if "MarshalAny E (Payload \<lparr>DecryptConfig = config, Descriptor = desc\<rparr>) = Inr a"
    using that by (rule sender_stores)
  have receiver: "UnmarshalLayerToolDecryptData E decryptData = Inr p"
    if "protoUnmarshal E decryptData = Inr pb \<and> UnmarshalAny E pb = Inr (Payload p)"
    using that by (simp add: UnmarshalLayerToolDecryptData_def)
  have rejected: "UnmarshalLayerToolDecryptData E decryptData' =
        Inl (New (''received an unknown data type '' @ [CHR 0x27] @ TypeUrl pb' @ [CHR 0x27]))"
    if "protoUnmarshal E decryptData' = Inr pb' \<and> UnmarshalAny E pb' = Inr (Other x)"
    using that by (simp add: UnmarshalLayerToolDecryptData_def)
  have marshalled: "MarshalAny W (Payload \<lparr>DecryptConfig = dconfig, Descriptor = desc\<rparr>) = Inr a'"
    by (simp add: W_def a'_def wireCodec_def)
  have sent: "last (UnpackOpts (snd (WithDecryptedImageUnpack W dconfig rc))) desc c =
         (None,
          c\<lparr>ProcessorPayloads :=
              Some ((case ProcessorPayloads c of None \<Rightarrow> Map.empty | Some m \<Rightarrow> m)
                      (''io.containerd.layertool.tar'' \<mapsto> a',
                       ''io.containerd.layertool.tar.gzip'' \<mapsto> a'))\<rparr>)"
    using marshalled by (rule sender_stores)
  have bytes: "protoMarshal W a' = Inr (encAny a')"
    by (simp add: W_def wireCodec_def)
  have decoded: "decPayload place (Value a') = Some (received, store)"
    by (simp add: a'_def received_def store_def decPayload_encPayload)
  have got: "UnmarshalLayerToolDecryptData W (encAny a') = Inr received"
    unfolding W_def wire_receives using decoded by (simp add: wireCodec_def a'_def)
  have same: "DecryptConfig received = dconfig \<and>
          MediaType (ProcessorPayload.Descriptor received) = MediaType desc \<and>
          Digest (ProcessorPayload.Descriptor received) = Digest desc \<and>
          Size (ProcessorPayload.Descriptor received) = Size desc \<and>
          platformOf store (ProcessorPayload.Descriptor received) =
            map_option mem (Platform desc)"
    by (cases "Platform desc") (simp_all add: received_def store_def platformOf_def)
  have round: "\<exists>received store.
          UnmarshalLayerToolDecryptData W (encAny a') = Inr received \<and>
          decPayload place (Value a') = Some (received, store) \<and>
          DecryptConfig received = dconfig \<and>
          MediaType (ProcessorPayload.Descriptor received) = MediaType desc \<and>
          Digest (ProcessorPayload.Descriptor received) = Digest desc \<and>
          Size (ProcessorPayload.Descriptor received) = Size desc \<and>
          platformOf store (ProcessorPayload.Descriptor received) =
            map_option mem (Platform desc)"
    using got decoded same by blast
  have altered: "\<exists>err. UnmarshalLayerToolDecryptData W (encAny b) = Inl err"
    if "TypeUrl b \<noteq> payloadTypeUrl"
    unfolding W_def wire_receives using that
    by (simp add: wireCodec_def split: option.splits)
  have named: "UnmarshalLayerToolDecryptData W (encAny b) =
            Inl (New (''received an unknown data type '' @ [CHR 0x27] @ TypeUrl b @ [CHR 0x27]))"
    if "TypeUrl b \<noteq> payloadTypeUrl \<and> others (TypeUrl b) = Some dec \<and> dec (Value b) = Some y"
    unfolding W_def wire_receives using that by (simp add: wireCodec_def)
  from sender receiver rejected sent bytes round altered named show ?thesis
    unfolding Let_def W_def [symmetric] a'_def [symmetric] by blast
qed

theorem payload_round_trip_witness:
  "last (UnpackOpts (snd (WithDecryptedImageUnpack sample_wire sample_config
           \<lparr>Unpack = False, UnpackOpts = []\<rparr>)))
     (sample_layer ''sha256:01'' (Some 0)) \<lparr>ProcessorPayloads = None\<rparr> =
     (None, \<lparr>ProcessorPayloads =
               Some [''io.containerd.layertool.tar'' \<mapsto> sample_wire_envelope,
                     ''io.containerd.layertool.tar.gzip'' \<mapsto> sample_wire_envelope]\<rparr>) \<and>
   protoMarshal sample_wire sample_wire_envelope = Inr (encAny sample_wire_envelope) \<and>
   UnmarshalLayerToolDecryptData sample_wire (encAny sample_wire_envelope) =
     Inr \<lparr>DecryptConfig = sample_config, Descriptor = sample_layer ''sha256:01'' (Some 7)\<rparr> \<and>
   UnmarshalLayerToolDecryptData sample_wire (encAny other_envelope) =
     Inl (New (''received an unknown data type '' @ [CHR 0x27] @
               ''types.containerd.io/opencontainers/runtime-spec/1/Spec'' @ [CHR 0x27]))"
proof -
  let ?mem = "deref (layerEnv sample_client)"
  let ?others = "[''types.containerd.io/opencontainers/runtime-spec/1/Spec'' \<mapsto>
                   (\<lambda>bs :: bytes. Some ())]"
  let ?desc = "sample_layer ''sha256:01'' (Some 0)"
  let ?received = "\<lparr>DecryptConfig = sample_config,
                     Descriptor = sample_layer ''sha256:01'' (Some 7)\<rparr>"
  note t = payload_round_trip [where E = sample_wire and config = sample_config
      and desc = ?desc and a = sample_wire_envelope
      and rc = "\<lparr>Unpack = False, UnpackOpts = []\<rparr>" and c = "\<lparr>ProcessorPayloads = None\<rparr>"
      and decryptData = "encAny sample_wire_envelope" and pb = sample_wire_envelope
      and p = ?received
      and decryptData' = "encAny other_envelope" and pb' = other_envelope and x = "()"
      and mem = ?mem and place = 7 and others = ?others
      and otherAny = "\<lambda>x. Inr other_envelope" and dconfig = sample_config
      and b = other_envelope and dec = "\<lambda>bs. Some ()" and y = "()"]
  have url: "TypeUrl other_envelope = ''types.containerd.io/opencontainers/runtime-spec/1/Spec''"
    by (simp add: other_envelope_def)
  have other: "TypeUrl other_envelope \<noteq> payloadTypeUrl"
    by (simp add: other_envelope_def payloadTypeUrl_def)
  have decoded: "decPayload 7 (Value sample_wire_envelope) =
      Some (?received, [7 \<mapsto> ?mem 0])"
    by (simp add: sample_wire_envelope_def decPayload_encPayload sample_layer_def)
  have h1: "MarshalAny sample_wire (Payload \<lparr>DecryptConfig = sample_config, Descriptor = ?desc\<rparr>) =
      Inr sample_wire_envelope"
    by (simp add: sample_wire_def wireCodec_def sample_wire_envelope_def)
  have h2: "protoUnmarshal sample_wire (encAny sample_wire_envelope) = Inr sample_wire_envelope \<and>
      UnmarshalAny sample_wire sample_wire_envelope = Inr (Payload ?received)"
    using decoded
    by (simp add: sample_wire_def wireCodec_def decAny_encAny)
       (simp add: sample_wire_envelope_def)
  have h3: "protoUnmarshal sample_wire (encAny other_envelope) = Inr other_envelope \<and>
      UnmarshalAny sample_wire other_envelope = Inr (Other ())"
    using other by (simp add: sample_wire_def wireCodec_def decAny_encAny url)
  have h4: "TypeUrl other_envelope \<noteq> payloadTypeUrl \<and>
      ?others (TypeUrl other_envelope) = Some (\<lambda>bs. Some ()) \<and>
      (\<lambda>bs :: bytes. Some ()) (Value other_envelope) = Some ()"
    using other by (simp add: url)
  from t h1 have sent: "last (UnpackOpts (snd (WithDecryptedImageUnpack sample_wire sample_config
           \<lparr>Unpack = False, UnpackOpts = []\<rparr>))) ?desc \<lparr>ProcessorPayloads = None\<rparr> =
     (None, \<lparr>ProcessorPayloads =
               Some [''io.containerd.layertool.tar'' \<mapsto> sample_wire_envelope,
                     ''io.containerd.layertool.tar.gzip'' \<mapsto> sample_wire_envelope]\<rparr>)"
    by simp
  from t h2 have got: "UnmarshalLayerToolDecryptData sample_wire (encAny sample_wire_envelope) =
      Inr ?received"
    by blast
  from t h3 have rejected: "UnmarshalLayerToolDecryptData sample_wire (encAny other_envelope) =
      Inl (New (''received an unknown data type '' @ [CHR 0x27] @ TypeUrl other_envelope @
                [CHR 0x27]))"
    by blast
  from t have wire: "protoMarshal sample_wire sample_wire_envelope =
        Inr (encAny sample_wire_envelope) \<and>
      (\<exists>received store.
         UnmarshalLayerToolDecryptData sample_wire (encAny sample_wire_envelope) = Inr received \<and>
         decPayload 7 (Value sample_wire_envelope) = Some (received, store)) \<and>
      (TypeUrl other_envelope \<noteq> payloadTypeUrl \<and>
       ?others (TypeUrl other_envelope) = Some (\<lambda>bs. Some ()) \<and>
       (\<lambda>bs :: bytes. Some ()) (Value other_envelope) = Some () \<longrightarrow>
         UnmarshalLayerToolDecryptData sample_wire (encAny other_envelope) =
           Inl (New (''received an unknown data type '' @ [CHR 0x27] @ TypeUrl other_envelope @
                     [CHR 0x27])))"
    unfolding Let_def sample_wire_def [symmetric] sample_wire_envelope_def [symmetric] by blast
  then have bytes: "protoMarshal sample_wire sample_wire_envelope =
      Inr (encAny sample_wire_envelope)"
    by blast
  from wire decoded have round: "UnmarshalLayerToolDecryptData sample_wire
      (encAny sample_wire_envelope) = Inr ?received"
    by auto
  from wire h4 have named: "UnmarshalLayerToolDecryptData sample_wire (encAny other_envelope) =
      Inl (New (''received an unknown data type '' @ [CHR 0x27] @ TypeUrl other_envelope @
                [CHR 0x27]))"
    by blast
  from sent bytes round got named rejected show ?thesis by (simp only: url)
qed

section \<open>Properties of the stream command\<close>

lemma copyLoop_after_chunks:
  assumes "\<forall>i<k. snd (copy (afterChunks copy i io) (10 * 1024)) = None"
    and "copy (afterChunks copy k io) (10 * 1024) = (io', Some err)"
  shows "copyLoop copy io =
           Some (io', if err = EOF then None else Some (Wrap err ''could not copy data''))"
  using assms
proof (induction k arbitrary: io)
  case 0
  then show ?case by (subst copyLoop.simps) simp
next
  case (Suc k)
  obtain io1 where first: "copy io (10 * 1024) = (io1, None)"
    using Suc.prems(1) [rule_format, of 0] by (cases "copy io (10 * 1024)") auto
  have "\<forall>i<k. snd (copy (afterChunks copy i io1) (10 * 1024)) = None"
    using Suc.prems(1) [rule_format, of "Suc _"] first by simp
  moreover have "copy (afterChunks copy k io1) (10 * 1024) = (io', Some err)"
    using Suc.prems(2) first by simp
  ultimately have "copyLoop copy io1 =
      Some (io', if err = EOF then None else Some (Wrap err ''could not copy data''))"
    by (rule Suc.IH)
  then show ?case using first by (subst copyLoop.simps) simp
qed

lemma copyLoop_returns:
  assumes "copyLoop copy io = Some y"
  shows "\<exists>k err. (\<forall>i<k. snd (copy (afterChunks copy i io) (10 * 1024)) = None) \<and>
           copy (afterChunks copy k io) (10 * 1024) = (fst y, Some err) \<and>
           snd y = (if err = EOF then None else Some (Wrap err ''could not copy data''))"
proof -
  define P where "P = (\<lambda>copy (io :: 'a) (y :: 'a \<times> error option).
    \<exists>k err. (\<forall>i<k. snd (copy (afterChunks copy i io) (10 * 1024)) = None) \<and>
           copy (afterChunks copy k io) (10 * 1024) = (fst y, Some err) \<and>
           snd y = (if err = EOF then None else Some (Wrap err ''could not copy data'')))"
  have "P copy io y"
  proof (rule copyLoop.raw_induct [where P = P, OF _ assms])
    fix loop copy and io :: 'a and y :: "'a \<times> error option"
    assume IH: "\<And>c s z. loop c s = Some z \<Longrightarrow> P c s z"
      and body: "(case copy io (10 * 1024) of
                    (io', None) \<Rightarrow> loop copy io'
                  | (io', Some err) \<Rightarrow>
                      if err = EOF then Some (io', None)
                      else Some (io', Some (Wrap err ''could not copy data''))) = Some y"
    obtain io1 e where c: "copy io (10 * 1024) = (io1, e)"
      by (cases "copy io (10 * 1024)")
    show "P copy io y"
    proof (cases e)
      case None
      with c body have "loop copy io1 = Some y" by simp
      from IH [OF this] obtain k err where
        k: "\<forall>i<k. snd (copy (afterChunks copy i io1) (10 * 1024)) = None"
        and last: "copy (afterChunks copy k io1) (10 * 1024) = (fst y, Some err)"
        and res: "snd y = (if err = EOF then None else Some (Wrap err ''could not copy data''))"
        unfolding P_def by blast
      have "\<forall>i<Suc k. snd (copy (afterChunks copy i io) (10 * 1024)) = None"
      proof (intro allI impI)
        fix i assume "i < Suc k"
        then show "snd (copy (afterChunks copy i io) (10 * 1024)) = None"
          using k c None by (cases i) auto
      qed
      moreover have "copy (afterChunks copy (Suc k) io) (10 * 1024) = (fst y, Some err)"
        using last c by simp
      ultimately show ?thesis unfolding P_def using res by blast
    next
      case (Some err)
      with c body have
        y: "y = (io1, if err = EOF then None else Some (Wrap err ''could not copy data''))"
        by (auto split: if_splits)
      have "\<forall>i<(0::nat). snd (copy (afterChunks copy i io) (10 * 1024)) = None" by simp
      moreover have "copy (afterChunks copy 0 io) (10 * 1024) = (fst y, Some err)"
        using c Some y by simp
      moreover have "snd y = (if err = EOF then None else Some (Wrap err ''could not copy data''))"
        using y by simp
      ultimately show ?thesis unfolding P_def by blast
    qed
  qed
  then show ?thesis unfolding P_def .
qed

text \<open>
  Claim C8. The copy loop returns exactly when, after some number \<open>k\<close> of calls of
  \<open>CopyN\<close> for 10 KiB (\<open>10 * 1024\<close> bytes) that gave no error, the next call for
  10 KiB gives an error; the state is then the one that call left. The result is
  nil when that error is \<open>io.EOF\<close>, and otherwise the error, wrapped with the
  message of the copy. On a stream on which no call ever gives an error the loop
  does not return. When the steps of the stream command before the loop succeed,
  the command returns what the loop returns.
\<close>

theorem copy_loop_ends_on_error:
  "(copyLoop copy io = Some (io', r) \<longleftrightarrow>
      (\<exists>k err. (\<forall>i<k. snd (copy (afterChunks copy i io) (10 * 1024)) = None) \<and>
         copy (afterChunks copy k io) (10 * 1024) = (io', Some err) \<and>
         r = (if err = EOF then None else Some (Wrap err ''could not copy data'')))) \<and>
   (ReadDecryptData E = Inr decryptData \<and> layerOutFile E \<and> layerInFile E \<and>
    UnmarshalLayerToolDecryptData (codec E) decryptData = Inr ltd \<and>
    DecryptLayer E (DecryptConfig ltd) (ProcessorPayload.Descriptor ltd) = Inr io0 \<longrightarrow>
      streamCommand E =
        (case copyLoop (CopyN E) io0 of None \<Rightarrow> None | Some (io1, r1) \<Rightarrow> Some (Some io1, r1)))"
proof (intro conjI iffI impI)
  assume "copyLoop copy io = Some (io', r)"
  from copyLoop_returns [OF this]
  show "\<exists>k err. (\<forall>i<k. snd (copy (afterChunks copy i io) (10 * 1024)) = None) \<and>
         copy (afterChunks copy k io) (10 * 1024) = (io', Some err) \<and>
         r = (if err = EOF then None else Some (Wrap err ''could not copy data''))"
    by simp
next
  assume "\<exists>k err. (\<forall>i<k. snd (copy (afterChunks copy i io) (10 * 1024)) = None) \<and>
         copy (afterChunks copy k io) (10 * 1024) = (io', Some err) \<and>
         r = (if err = EOF then None else Some (Wrap err ''could not copy data''))"
  then show "copyLoop copy io = Some (io', r)"
    using copyLoop_after_chunks [of _ copy io io'] by blast
next
  assume "ReadDecryptData E = Inr decryptData \<and> layerOutFile E \<and> layerInFile E \<and>
    UnmarshalLayerToolDecryptData (codec E) decryptData = Inr ltd \<and>
    DecryptLayer E (DecryptConfig ltd) (ProcessorPayload.Descriptor ltd) = Inr io0"
  then show "streamCommand E =
        (case copyLoop (CopyN E) io0 of None \<Rightarrow> None | Some (io1, r1) \<Rightarrow> Some (Some io1, r1))"
    by (simp add: streamCommand_def)
qed

lemma sample_copy_full:
  "sample_copy (replicate 10240 c @ ''xyz'', []) 10240 = ((''xyz'', replicate 10240 c), None)"
  by (simp add: sample_copy_def)

lemma sample_copy_rest:
  "sample_copy (''xyz'', out) 10240 = (([], out @ ''xyz''), Some EOF)"
  by (simp add: sample_copy_def)

theorem copy_loop_ends_on_error_witness:
  "copyLoop sample_copy (replicate 10240 CHR ''a'' @ ''xyz'', []) =
     Some (([], replicate 10240 CHR ''a'' @ ''xyz''), None) \<and>
   copyLoop broken_copy (''xyz'', []) =
     Some ((''xyz'', []), Some (Wrap (Lib ''broken pipe'') ''could not copy data'')) \<and>
   streamCommand sample_stream = Some (Some ([], ''xyz''), None)"
proof -
  let ?io = "(replicate 10240 CHR ''a'' @ ''xyz'', [])"
  have "\<forall>i<Suc 0. snd (sample_copy (afterChunks sample_copy i ?io) (10 * 1024)) = None"
    by (simp add: sample_copy_full)
  moreover have "sample_copy (afterChunks sample_copy (Suc 0) ?io) (10 * 1024) =
      (([], replicate 10240 CHR ''a'' @ ''xyz''), Some EOF)"
    by (simp add: sample_copy_full sample_copy_rest)
  ultimately have "\<exists>k err. (\<forall>i<k. snd (sample_copy (afterChunks sample_copy i ?io) (10 * 1024)) = None) \<and>
         sample_copy (afterChunks sample_copy k ?io) (10 * 1024) =
           (([], replicate 10240 CHR ''a'' @ ''xyz''), Some err) \<and>
         None = (if err = EOF then None else Some (Wrap err ''could not copy data''))"
    by (intro exI [of _ "Suc 0"] exI [of _ EOF]) simp
  then have one: "copyLoop sample_copy ?io = Some (([], replicate 10240 CHR ''a'' @ ''xyz''), None)"
    using copy_loop_ends_on_error [THEN conjunct1, of sample_copy ?io] by blast
  have "\<exists>k err. (\<forall>i<k. snd (broken_copy (afterChunks broken_copy i (''xyz'', [])) (10 * 1024)) = None) \<and>
         broken_copy (afterChunks broken_copy k (''xyz'', [])) (10 * 1024) =
           ((''xyz'', []), Some err) \<and>
         Some (Wrap (Lib ''broken pipe'') ''could not copy data'') =
           (if err = EOF then None else Some (Wrap err ''could not copy data''))"
    by (intro exI [of _ 0] exI [of _ "Lib ''broken pipe''"]) (simp add: broken_copy_def)
  then have two: "copyLoop broken_copy (''xyz'', []) =
     Some ((''xyz'', []), Some (Wrap (Lib ''broken pipe'') ''could not copy data''))"
    using copy_loop_ends_on_error [THEN conjunct1, of broken_copy "(''xyz'', [])"] by blast
  have "\<exists>k err. (\<forall>i<k. snd (sample_copy (afterChunks sample_copy i (''xyz'', [])) (10 * 1024)) = None) \<and>
         sample_copy (afterChunks sample_copy k (''xyz'', [])) (10 * 1024) =
           (([], ''xyz''), Some err) \<and>
         None = (if err = EOF then None else Some (Wrap err ''could not copy data''))"
    by (intro exI [of _ 0] exI [of _ EOF]) (simp add: sample_copy_rest)
  then have short: "copyLoop sample_copy (''xyz'', []) = Some (([], ''xyz''), None)"
    using copy_loop_ends_on_error [THEN conjunct1, of sample_copy "(''xyz'', [])"] by blast
  have pre: "ReadDecryptData sample_stream = Inr ''wire-payload'' \<and>
      layerOutFile sample_stream \<and> layerInFile sample_stream \<and>
      UnmarshalLayerToolDecryptData (codec sample_stream) ''wire-payload'' = Inr sample_payload \<and>
      DecryptLayer sample_stream (DecryptConfig sample_payload)
        (ProcessorPayload.Descriptor sample_payload) = Inr (''xyz'', [])"
    by (simp add: sample_stream_def ReadDecryptData_def UnmarshalLayerToolDecryptData_def
        sample_codec_def)
  have "streamCommand sample_stream =
      (case copyLoop (CopyN sample_stream) (''xyz'', []) of
         None \<Rightarrow> None | Some (io1, r1) \<Rightarrow> Some (Some io1, r1))"
    using copy_loop_ends_on_error [THEN conjunct2, of sample_stream "''wire-payload''"
        sample_payload "(''xyz'', [])"] pre by blast
  moreover have "CopyN sample_stream = sample_copy" by (simp add: sample_stream_def)
  ultimately have three: "streamCommand sample_stream = Some (Some ([], ''xyz''), None)"
    using short by simp
  from one two three show ?thesis by simp
qed

section \<open>Properties of the composer\<close>

lemma unionBackends_assoc:
  "unionBackends (unionBackends a b) c = unionBackends a (unionBackends b c)"
  by (auto simp: unionBackends_def intro: filter_cong)

lemma unionBackends_Nil [simp]: "unionBackends [] a = a" "unionBackends a [] = a"
  by (simp_all add: unionBackends_def)

lemma unionBackends_idem [simp]: "unionBackends a a = a"
  by (simp add: unionBackends_def)

lemma combineTwo_assoc: "combineTwo (combineTwo a b) c = combineTwo a (combineTwo b c)"
  by (simp add: combineTwo_def unionBackends_assoc)

lemma combineTwo_empty [simp]: "combineTwo emptyConfig a = a" "combineTwo a emptyConfig = a"
  by (simp_all add: combineTwo_def emptyConfig_def)

lemma combineTwo_idem [simp]: "combineTwo a a = a"
  by (simp add: combineTwo_def)

lemma foldl_combineTwo: "foldl combineTwo a ccs = combineTwo a (foldl combineTwo emptyConfig ccs)"
proof (induction ccs arbitrary: a)
  case Nil
  show ?case by simp
next
  case (Cons c ccs)
  have "foldl combineTwo a (c # ccs) = combineTwo (combineTwo a c) (foldl combineTwo emptyConfig ccs)"
    using Cons.IH [of "combineTwo a c"] by simp
  also have "\<dots> = combineTwo a (combineTwo c (foldl combineTwo emptyConfig ccs))"
    by (rule combineTwo_assoc)
  also have "combineTwo c (foldl combineTwo emptyConfig ccs) = foldl combineTwo emptyConfig (c # ccs)"
    using Cons.IH [of c] by simp
  finally show ?case .
qed

lemma Combine_append:
  "CombineCryptoConfigs (xs @ ys) = combineTwo (CombineCryptoConfigs xs) (CombineCryptoConfigs ys)"
  unfolding CombineCryptoConfigs_def by (simp add: foldl_combineTwo [symmetric])

text \<open>
  Claim C9, on the composer as the specification describes it. Combining is
  associative: combining \<open>a\<close> with \<open>b\<close> and the result with \<open>c\<close> is combining
  \<open>a\<close> with the combination of \<open>b\<close> and \<open>c\<close>, and both are the combination of
  the three; more generally a list of configurations may be combined in two
  parts. The empty configuration is an identity on either side, the combination
  of one configuration is that configuration, and combining no configuration or
  empty ones gives the empty configuration. Combining a configuration with itself
  gives it back, so every backend configuration occurs in the result as often as
  it did before: no cryptographic material is duplicated.
\<close>

theorem combine_laws:
  "CombineCryptoConfigs [CombineCryptoConfigs [a, b], c] =
     CombineCryptoConfigs [a, CombineCryptoConfigs [b, c]] \<and>
   CombineCryptoConfigs [CombineCryptoConfigs [a, b], c] = CombineCryptoConfigs [a, b, c] \<and>
   CombineCryptoConfigs (xs @ ys) =
     CombineCryptoConfigs [CombineCryptoConfigs xs, CombineCryptoConfigs ys] \<and>
   CombineCryptoConfigs [a, emptyConfig] = a \<and>
   CombineCryptoConfigs [emptyConfig, a] = a \<and>
   CombineCryptoConfigs [a] = a \<and>
   CombineCryptoConfigs [] = emptyConfig \<and>
   CombineCryptoConfigs [emptyConfig, emptyConfig] = emptyConfig \<and>
   CombineCryptoConfigs [a, a] = a \<and>
   count_list (encryptBackends (CombineCryptoConfigs [a, a])) k = count_list (encryptBackends a) k \<and>
   count_list (decryptBackends (CombineCryptoConfigs [a, a])) k = count_list (decryptBackends a) k"
proof -
  have two: "CombineCryptoConfigs [x, y] = combineTwo x y" for x y
    by (simp add: CombineCryptoConfigs_def)
  have three: "CombineCryptoConfigs [x, y, z] = combineTwo (combineTwo x y) z" for x y z
    by (simp add: CombineCryptoConfigs_def)
  have one: "CombineCryptoConfigs [x] = x" for x
    by (simp add: CombineCryptoConfigs_def)
  have none: "CombineCryptoConfigs [] = emptyConfig"
    by (simp add: CombineCryptoConfigs_def)
  show ?thesis
    by (simp add: two three one none combineTwo_assoc Combine_append)
qed

end
